theory Spec2Isabelle
  imports Complex_Main
begin

section \<open>Data model\<close>

text \<open>
  A shallow embedding of \<^verbatim>\<open>src/Open3D/Geometry/PointCloud.cpp\<close>.

  Coordinates are modelled as real numbers: every statement below is about the
  arithmetic expressions the code evaluates, not about the rounding of IEEE doubles.
  Container sizes and indices (\<^verbatim>\<open>size_t\<close>, and the \<^verbatim>\<open>int\<close> loop counters)
  are natural numbers: a cloud is assumed to hold fewer than \<open>2^31\<close> points, where the
  casts between the two are the identity and \<^verbatim>\<open>old_vert_num + add_vert_num\<close> does not
  wrap.

  The members \<^verbatim>\<open>points_\<close>, \<^verbatim>\<open>normals_\<close>, \<^verbatim>\<open>colors_\<close> are written without
  the trailing underscore, which an Isabelle name cannot end with.

  An \<^verbatim>\<open>Eigen::Vector3d\<close> is the triple of its coefficients \<open>(0)\<close>, \<open>(1)\<close>, \<open>(2)\<close>.
\<close>

type_synonym Vector3d = "real \<times> real \<times> real"

definition coeff :: "Vector3d \<Rightarrow> nat \<Rightarrow> real" where
  "coeff v i = (case v of (x, y, z) \<Rightarrow> if i = 0 then x else if i = 1 then y else z)"

record PointCloud =
  points :: "Vector3d list"
  normals :: "Vector3d list"
  colors :: "Vector3d list"

text \<open>
  Modelled from the spec: \<^verbatim>\<open>HasPoints\<close>, \<^verbatim>\<open>HasNormals\<close> and \<^verbatim>\<open>HasColors\<close> are
  declared in \<^verbatim>\<open>PointCloud.h\<close>, which is not among the sources. The spec's data model
  has each attribute sequence either empty or exactly as long as the point sequence; a
  cloud has points when the point sequence is not empty, and has an attribute when it
  has points and the attribute sequence holds one entry per point.
\<close>

definition HasPoints :: "PointCloud \<Rightarrow> bool" where
  "HasPoints c = (0 < length (points c))"

definition HasNormals :: "PointCloud \<Rightarrow> bool" where
  "HasNormals c = (0 < length (points c) \<and> length (normals c) = length (points c))"

definition HasColors :: "PointCloud \<Rightarrow> bool" where
  "HasColors c = (0 < length (points c) \<and> length (colors c) = length (points c))"

definition IsEmpty :: "PointCloud \<Rightarrow> bool" where
  "IsEmpty c = (\<not> HasPoints c)"

definition Clear :: "PointCloud \<Rightarrow> PointCloud" where
  "Clear c = c\<lparr>points := [], normals := [], colors := []\<rparr>"


section \<open>Concatenation: \<^verbatim>\<open>operator+=\<close>\<close>

text \<open>
  \<^verbatim>\<open>operator+=\<close> receives its argument by reference, and the argument may be the
  object itself. The objects therefore live in a store, addressed by natural numbers;
  \<open>this\<close> and \<open>cloud\<close> are addresses, every read of \<^verbatim>\<open>cloud.normals_[i]\<close> is a read of
  the current store and every write to a member of \<open>this\<close> is a store update.
\<close>

type_synonym store = "nat \<Rightarrow> PointCloud"

datatype member = Points | Normals | Colors

fun get_member :: "member \<Rightarrow> PointCloud \<Rightarrow> Vector3d list" where
  "get_member Points c = points c"
| "get_member Normals c = normals c"
| "get_member Colors c = colors c"

fun set_member :: "member \<Rightarrow> Vector3d list \<Rightarrow> PointCloud \<Rightarrow> PointCloud" where
  "set_member Points v c = c\<lparr>points := v\<rparr>"
| "set_member Normals v c = c\<lparr>normals := v\<rparr>"
| "set_member Colors v c = c\<lparr>colors := v\<rparr>"

text \<open>
  \<^verbatim>\<open>std::vector::resize(n)\<close>: the first \<open>n\<close> elements are kept, and new elements are
  default-constructed. A default-constructed \<^verbatim>\<open>Eigen::Vector3d\<close> has indeterminate
  coefficients; the value \<open>d\<close> stands for it, and every result below holds for all \<open>d\<close>.
\<close>

definition resize :: "'a \<Rightarrow> nat \<Rightarrow> 'a list \<Rightarrow> 'a list" where
  "resize d n xs = take n xs @ replicate (n - length xs) d"

text \<open>
  The three copy loops
  \<^verbatim>\<open>for (size_t i = 0; i < add_vert_num; i++) m_[old_vert_num + i] = cloud.m_[i];\<close>
  for the member \<open>m\<close>. \<^verbatim>\<open>operator[]\<close> outside the vector is undefined behaviour: the
  loop then has no result (\<open>None\<close>).
\<close>

function copy_loop ::
  "member \<Rightarrow> nat \<Rightarrow> nat \<Rightarrow> nat \<Rightarrow> nat \<Rightarrow> nat \<Rightarrow> store \<Rightarrow> store option" where
  "copy_loop m this cloud old_vert_num add_vert_num i s =
     (if i < add_vert_num then
        (if i < length (get_member m (s cloud)) \<and>
            old_vert_num + i < length (get_member m (s this))
         then copy_loop m this cloud old_vert_num add_vert_num (Suc i)
                (s(this := set_member m
                     ((get_member m (s this))[old_vert_num + i := get_member m (s cloud) ! i])
                     (s this)))
         else None)
      else Some s)"
  by pat_completeness auto
termination
  by (relation "measure (\<lambda>(m, this, cloud, old_vert_num, add_vert_num, i, s). add_vert_num - i)")
     auto

declare copy_loop.simps [simp del]

definition plus_assign :: "Vector3d \<Rightarrow> nat \<Rightarrow> nat \<Rightarrow> store \<Rightarrow> store option" where
  "plus_assign d this cloud s =
     (if IsEmpty (s cloud) then Some s
      else
        let old_vert_num = length (points (s this));
            add_vert_num = length (points (s cloud));
            new_vert_num = old_vert_num + add_vert_num
        in
          case (if (\<not> HasPoints (s this) \<or> HasNormals (s this)) \<and> HasNormals (s cloud)
                then copy_loop Normals this cloud old_vert_num add_vert_num 0
                       (s(this := (s this)\<lparr>normals := resize d new_vert_num (normals (s this))\<rparr>))
                else Some (s(this := (s this)\<lparr>normals := []\<rparr>)))
          of None \<Rightarrow> None
           | Some s1 \<Rightarrow>
          case (if (\<not> HasPoints (s1 this) \<or> HasColors (s1 this)) \<and> HasColors (s1 cloud)
                then copy_loop Colors this cloud old_vert_num add_vert_num 0
                       (s1(this := (s1 this)\<lparr>colors := resize d new_vert_num (colors (s1 this))\<rparr>))
                else Some (s1(this := (s1 this)\<lparr>colors := []\<rparr>)))
          of None \<Rightarrow> None
           | Some s2 \<Rightarrow>
          copy_loop Points this cloud old_vert_num add_vert_num 0
            (s2(this := (s2 this)\<lparr>points := resize d new_vert_num (points (s2 this))\<rparr>)))"

text \<open>
  The attribute sequence of the result of a non-trivial append: when the attribute is
  \<open>present\<close>, the entries of \<open>A\<close> (none when \<open>A\<close> has no points) followed by the
  appended ones; otherwise the cleared sequence.
\<close>

definition joined :: "bool \<Rightarrow> PointCloud \<Rightarrow> Vector3d list \<Rightarrow> Vector3d list \<Rightarrow> Vector3d list" where
  "joined present A xs ys = (if present then (if HasPoints A then xs else []) @ ys else [])"

definition member_at :: "member \<Rightarrow> nat \<Rightarrow> store option \<Rightarrow> Vector3d list option" where
  "member_at m a r = (case r of None \<Rightarrow> None | Some s \<Rightarrow> Some (get_member m (s a)))"

definition holds_at :: "(PointCloud \<Rightarrow> bool) \<Rightarrow> nat \<Rightarrow> store option \<Rightarrow> bool" where
  "holds_at P a r = (case r of None \<Rightarrow> False | Some s \<Rightarrow> P (s a))"

text \<open>A store holding the listed clouds at addresses \<open>0, 1, \<dots>\<close>, for concrete runs.\<close>

definition store_of :: "PointCloud list \<Rightarrow> store" where
  "store_of cs a =
     (if a < length cs then cs ! a else \<lparr>points = [], normals = [], colors = []\<rparr>)"

definition cloud_at :: "nat \<Rightarrow> store option \<Rightarrow> PointCloud option" where
  "cloud_at a r = (case r of None \<Rightarrow> None | Some s \<Rightarrow> Some (s a))"


section \<open>Bounds: \<^verbatim>\<open>GetMinBound\<close> and \<^verbatim>\<open>GetMaxBound\<close>\<close>

text \<open>
  \<^verbatim>\<open>std::min_element(first, last, cmp)\<close> of the C++ standard library: the iterator to
  the first smallest element, found by one pass that replaces the candidate whenever
  \<open>cmp\<close> puts the visited element strictly before it; on an empty range it returns
  \<open>last\<close>, which cannot be dereferenced (\<open>None\<close>). \<^verbatim>\<open>std::max_element\<close> replaces the
  candidate whenever \<open>cmp\<close> puts the candidate strictly before the visited element.
\<close>

fun min_element_from :: "('a \<Rightarrow> 'a \<Rightarrow> bool) \<Rightarrow> 'a \<Rightarrow> 'a list \<Rightarrow> 'a" where
  "min_element_from cmp smallest [] = smallest"
| "min_element_from cmp smallest (x # xs) =
     min_element_from cmp (if cmp x smallest then x else smallest) xs"

fun max_element_from :: "('a \<Rightarrow> 'a \<Rightarrow> bool) \<Rightarrow> 'a \<Rightarrow> 'a list \<Rightarrow> 'a" where
  "max_element_from cmp largest [] = largest"
| "max_element_from cmp largest (x # xs) =
     max_element_from cmp (if cmp largest x then x else largest) xs"

definition min_element :: "('a \<Rightarrow> 'a \<Rightarrow> bool) \<Rightarrow> 'a list \<Rightarrow> 'a option" where
  "min_element cmp xs = (case xs of [] \<Rightarrow> None | x # xs' \<Rightarrow> Some (min_element_from cmp x xs'))"

definition max_element :: "('a \<Rightarrow> 'a \<Rightarrow> bool) \<Rightarrow> 'a list \<Rightarrow> 'a option" where
  "max_element cmp xs = (case xs of [] \<Rightarrow> None | x # xs' \<Rightarrow> Some (max_element_from cmp x xs'))"

text \<open>The result is \<open>None\<close> where the code would dereference an end iterator.\<close>

definition GetMinBound :: "PointCloud \<Rightarrow> Vector3d option" where
  "GetMinBound c =
     (if \<not> HasPoints c then Some (0, 0, 0)
      else
        case (min_element (\<lambda>a b. coeff a 0 < coeff b 0) (points c),
              min_element (\<lambda>a b. coeff a 1 < coeff b 1) (points c),
              min_element (\<lambda>a b. coeff a 2 < coeff b 2) (points c))
        of (Some itr_x, Some itr_y, Some itr_z) \<Rightarrow>
             Some (coeff itr_x 0, coeff itr_y 1, coeff itr_z 2)
         | _ \<Rightarrow> None)"

definition GetMaxBound :: "PointCloud \<Rightarrow> Vector3d option" where
  "GetMaxBound c =
     (if \<not> HasPoints c then Some (0, 0, 0)
      else
        case (max_element (\<lambda>a b. coeff a 0 < coeff b 0) (points c),
              max_element (\<lambda>a b. coeff a 1 < coeff b 1) (points c),
              max_element (\<lambda>a b. coeff a 2 < coeff b 2) (points c))
        of (Some itr_x, Some itr_y, Some itr_z) \<Rightarrow>
             Some (coeff itr_x 0, coeff itr_y 1, coeff itr_z 2)
         | _ \<Rightarrow> None)"

text \<open>The least and the greatest coordinate of a point sequence on one axis.\<close>

definition axis_min :: "nat \<Rightarrow> Vector3d list \<Rightarrow> real" where
  "axis_min i ps = Min (set (map (\<lambda>p. coeff p i) ps))"

definition axis_max :: "nat \<Rightarrow> Vector3d list \<Rightarrow> real" where
  "axis_max i ps = Max (set (map (\<lambda>p. coeff p i) ps))"


section \<open>\<^verbatim>\<open>Transform\<close>\<close>

text \<open>
  An \<^verbatim>\<open>Eigen::Vector4d\<close> is the tuple of its four coefficients and an
  \<^verbatim>\<open>Eigen::Matrix4d\<close> the tuple of its four rows; the product of a matrix and a vector
  has, in row \<open>i\<close>, the sum over \<open>j\<close> of \<open>M(i, j) * v(j)\<close>; \<^verbatim>\<open>block<3, 1>(0, 0)\<close> is the
  vector of the first three coefficients.
\<close>

type_synonym Vector4d = "real \<times> real \<times> real \<times> real"
type_synonym Matrix4d = "Vector4d \<times> Vector4d \<times> Vector4d \<times> Vector4d"

fun dot4 :: "Vector4d \<Rightarrow> Vector4d \<Rightarrow> real" where
  "dot4 (a, b, c, d) (x, y, z, w) = a * x + b * y + c * z + d * w"

fun mat_vec4 :: "Matrix4d \<Rightarrow> Vector4d \<Rightarrow> Vector4d" where
  "mat_vec4 (r0, r1, r2, r3) v = (dot4 r0 v, dot4 r1 v, dot4 r2 v, dot4 r3 v)"

fun block3 :: "Vector4d \<Rightarrow> Vector3d" where
  "block3 (x, y, z, w) = (x, y, z)"

definition Transform :: "Matrix4d \<Rightarrow> PointCloud \<Rightarrow> PointCloud" where
  "Transform transformation c =
     c\<lparr>points := map (\<lambda>point. block3 (mat_vec4 transformation
                        (coeff point 0, coeff point 1, coeff point 2, 1))) (points c),
       normals := map (\<lambda>normal. block3 (mat_vec4 transformation
                        (coeff normal 0, coeff normal 1, coeff normal 2, 0))) (normals c)\<rparr>"

text \<open>
  The reading of a \<open>4 \<times> 4\<close> affine matrix: its upper left \<open>3 \<times> 3\<close> block is the linear
  part, the first three entries of its last column are the translation.
\<close>

fun linear_image :: "Matrix4d \<Rightarrow> Vector3d \<Rightarrow> Vector3d" where
  "linear_image ((m00, m01, m02, m03), (m10, m11, m12, m13), (m20, m21, m22, m23), r3) (x, y, z) =
     (m00 * x + m01 * y + m02 * z, m10 * x + m11 * y + m12 * z, m20 * x + m21 * y + m22 * z)"

fun translation :: "Matrix4d \<Rightarrow> Vector3d" where
  "translation ((m00, m01, m02, m03), (m10, m11, m12, m13), (m20, m21, m22, m23), r3) =
     (m03, m13, m23)"

fun vec_add :: "Vector3d \<Rightarrow> Vector3d \<Rightarrow> Vector3d" where
  "vec_add (a, b, c) (x, y, z) = (a + x, b + y, c + z)"

definition affine_image :: "Matrix4d \<Rightarrow> Vector3d \<Rightarrow> Vector3d" where
  "affine_image M p = vec_add (linear_image M p) (translation M)"


section \<open>Mean and covariance\<close>

text \<open>
  An \<^verbatim>\<open>Eigen::Matrix3d\<close> is the tuple of its three rows. The nine cumulants are the
  tuple of the coefficients \<open>(0)\<close> to \<open>(8)\<close>.
\<close>

type_synonym Matrix3d = "Vector3d \<times> Vector3d \<times> Vector3d"

definition entry :: "Matrix3d \<Rightarrow> nat \<Rightarrow> nat \<Rightarrow> real" where
  "entry M i j = (case M of (r0, r1, r2) \<Rightarrow> coeff (if i = 0 then r0 else if i = 1 then r1 else r2) j)"

type_synonym cumulants = "real \<times> real \<times> real \<times> real \<times> real \<times> real \<times> real \<times> real \<times> real"

fun accumulate :: "cumulants \<Rightarrow> Vector3d \<Rightarrow> cumulants" where
  "accumulate (c0, c1, c2, c3, c4, c5, c6, c7, c8) point =
     (c0 + coeff point 0, c1 + coeff point 1, c2 + coeff point 2,
      c3 + coeff point 0 * coeff point 0,
      c4 + coeff point 0 * coeff point 1,
      c5 + coeff point 0 * coeff point 2,
      c6 + coeff point 1 * coeff point 1,
      c7 + coeff point 1 * coeff point 2,
      c8 + coeff point 2 * coeff point 2)"

fun divide_all :: "cumulants \<Rightarrow> real \<Rightarrow> cumulants" where
  "divide_all (c0, c1, c2, c3, c4, c5, c6, c7, c8) n =
     (c0 / n, c1 / n, c2 / n, c3 / n, c4 / n, c5 / n, c6 / n, c7 / n, c8 / n)"

fun moments :: "cumulants \<Rightarrow> Vector3d \<times> Matrix3d" where
  "moments (c0, c1, c2, c3, c4, c5, c6, c7, c8) =
     ((c0, c1, c2),
      ((c3 - c0 * c0, c4 - c0 * c1, c5 - c0 * c2),
       (c4 - c0 * c1, c6 - c1 * c1, c7 - c1 * c2),
       (c5 - c0 * c2, c7 - c1 * c2, c8 - c2 * c2)))"

definition ComputePointCloudMeanAndCovariance :: "PointCloud \<Rightarrow> Vector3d \<times> Matrix3d" where
  "ComputePointCloudMeanAndCovariance input =
     (if IsEmpty input then ((0, 0, 0), ((1, 0, 0), (0, 1, 0), (0, 0, 1)))
      else moments (divide_all (foldl accumulate (0, 0, 0, 0, 0, 0, 0, 0, 0) (points input))
                      (real (length (points input)))))"

text \<open>The average of a quantity over the points of a sequence.\<close>

definition average :: "(Vector3d \<Rightarrow> real) \<Rightarrow> Vector3d list \<Rightarrow> real" where
  "average f ps = sum_list (map f ps) / real (length ps)"


section \<open>Nearest-neighbour distances\<close>

text \<open>
  \<^verbatim>\<open>KDTreeFlann\<close> is not among the sources. The two distance functions take the
  search as a parameter: \<open>SearchKNN geometry query knn\<close> stands for
  \<^verbatim>\<open>kdtree.SearchKNN(query, knn, indices, dists)\<close> on a tree built over \<open>geometry\<close>, and
  yields the returned count together with the contents of \<^verbatim>\<open>indices\<close> and \<^verbatim>\<open>dists\<close>
  after the call.
\<close>

type_synonym knn_result = "int \<times> int list \<times> real list"
type_synonym knn_search = "Vector3d list \<Rightarrow> Vector3d \<Rightarrow> int \<Rightarrow> knn_result"

text \<open>
  The loop of both functions, without OpenMP: for each \<open>i\<close> the search is run for point
  \<open>i\<close> of \<open>queries\<close>; when the count satisfies \<open>without_neighbors\<close> the message is
  handed to \<^verbatim>\<open>PrintDebug\<close> (appended to \<open>printed\<close>) and slot \<open>i\<close> is set to \<open>0.0\<close>,
  otherwise slot \<open>i\<close> is set to the square root of \<^verbatim>\<open>dists[j]\<close>. Reading \<^verbatim>\<open>dists[j]\<close>
  outside the vector is undefined behaviour (\<open>None\<close>).
\<close>

function distance_loop ::
  "knn_search \<Rightarrow> Vector3d list \<Rightarrow> Vector3d list \<Rightarrow> int \<Rightarrow> (int \<Rightarrow> bool) \<Rightarrow> nat \<Rightarrow> string \<Rightarrow>
   nat \<Rightarrow> real list \<times> string list \<Rightarrow> (real list \<times> string list) option" where
  "distance_loop SearchKNN geometry queries knn without_neighbors j message i (distances, printed) =
     (if i < length queries then
        (case SearchKNN geometry (queries ! i) knn of (found, indices, dists) \<Rightarrow>
           if without_neighbors found
           then distance_loop SearchKNN geometry queries knn without_neighbors j message (Suc i)
                  (distances[i := 0], printed @ [message])
           else if j < length dists
           then distance_loop SearchKNN geometry queries knn without_neighbors j message (Suc i)
                  (distances[i := sqrt (dists ! j)], printed)
           else None)
      else Some (distances, printed))"
  by pat_completeness auto
termination
  by (relation "measure (\<lambda>(SearchKNN, geometry, queries, knn, without_neighbors, j, message, i, st).
        length queries - i)") auto

declare distance_loop.simps [simp del]

text \<open>
  \<^verbatim>\<open>ComputePointCloudToPointCloudDistance\<close>: the tree is built over \<open>target\<close>, the search
  asks for 1 neighbour, the test is \<^verbatim>\<open>== 0\<close>, the distance read is \<^verbatim>\<open>dists[0]\<close>.
  \<^verbatim>\<open>ComputePointCloudNearestNeighborDistance\<close>: the tree is built over \<open>input\<close>, the
  search asks for 2 neighbours, the test is \<^verbatim>\<open><= 1\<close>, the distance read is
  \<^verbatim>\<open>dists[1]\<close>. The vector of results starts as zeros, one per point.
\<close>

definition ComputePointCloudToPointCloudDistance ::
  "knn_search \<Rightarrow> PointCloud \<Rightarrow> PointCloud \<Rightarrow> (real list \<times> string list) option" where
  "ComputePointCloudToPointCloudDistance SearchKNN source target =
     distance_loop SearchKNN (points target) (points source) 1 (\<lambda>found. found = 0) 0
       ''[ComputePointCloudToPointCloudDistance] Found a point without neighbors.''
       0 (replicate (length (points source)) 0, [])"

definition ComputePointCloudNearestNeighborDistance ::
  "knn_search \<Rightarrow> PointCloud \<Rightarrow> (real list \<times> string list) option" where
  "ComputePointCloudNearestNeighborDistance SearchKNN input =
     distance_loop SearchKNN (points input) (points input) 2 (\<lambda>found. found \<le> 1) 1
       ''[ComputePointCloudNearestNeighborDistance] Found a point without neighbors.''
       0 (replicate (length (points input)) 0, [])"

text \<open>What one iteration stores and prints, and when its read is inside \<^verbatim>\<open>dists\<close>.\<close>

definition slot_value :: "(int \<Rightarrow> bool) \<Rightarrow> nat \<Rightarrow> knn_result \<Rightarrow> real" where
  "slot_value without_neighbors j r =
     (case r of (found, indices, dists) \<Rightarrow> if without_neighbors found then 0 else sqrt (dists ! j))"

definition slot_message :: "(int \<Rightarrow> bool) \<Rightarrow> string \<Rightarrow> knn_result \<Rightarrow> string list" where
  "slot_message without_neighbors message r =
     (case r of (found, indices, dists) \<Rightarrow> if without_neighbors found then [message] else [])"

definition readable :: "(int \<Rightarrow> bool) \<Rightarrow> nat \<Rightarrow> knn_result \<Rightarrow> bool" where
  "readable without_neighbors j r =
     (case r of (found, indices, dists) \<Rightarrow> without_neighbors found \<or> j < length dists)"

text \<open>
  Modelled from the spec: \<^verbatim>\<open>KDTreeFlann::SearchKNN\<close> is missing from the sources. The
  spec's spatial index answers \<open>search_knn(query, k)\<close> with the \<open>k\<close> nearest indexed
  points as (count found, indices, squared distances), the squared distances sorted
  ascending; the count is less than \<open>k\<close> when the index holds fewer than \<open>k\<close> points.
\<close>

definition squared_distance :: "Vector3d \<Rightarrow> Vector3d \<Rightarrow> real" where
  "squared_distance p q =
     (coeff p 0 - coeff q 0)\<^sup>2 + (coeff p 1 - coeff q 1)\<^sup>2 + (coeff p 2 - coeff q 2)\<^sup>2"

definition search_knn :: knn_search where
  "search_knn data query knn =
     (let nearest = take (nat knn)
            (sort_key (\<lambda>i. squared_distance (data ! i) query) [0..<length data])
      in (int (length nearest), map int nearest,
          map (\<lambda>i. squared_distance (data ! i) query) nearest))"


section \<open>Device mirrors (\<^verbatim>\<open>OPEN3D_USE_CUDA\<close>)\<close>

text \<open>
  The CUDA runtime is outside the repository and is a parameter of the model:
  \<open>cudaFree rt p\<close> holds when freeing the buffer \<open>p\<close> returns \<^verbatim>\<open>cudaSuccess\<close>;
  \<open>cudaMalloc rt size\<close> is \<open>Some p\<close> when the allocation returns \<^verbatim>\<open>cudaSuccess\<close> and
  stores the pointer \<open>p\<close> in the handle, and \<open>None\<close> when it fails (the handle, null at
  that moment, stays null); \<open>cudaMemcpy rt p size\<close> holds when the copy to \<open>p\<close> returns
  \<^verbatim>\<open>cudaSuccess\<close>. Every call of the runtime, and the \<^verbatim>\<open>printf\<close> of the error string,
  is appended to a trace, which shows which refreshes were attempted.

  A device handle (\<^verbatim>\<open>double *\<close>) is \<open>None\<close> when null and \<open>Some p\<close> otherwise. The members
  \<^verbatim>\<open>d_points_\<close>, \<^verbatim>\<open>d_normals_\<close>, \<^verbatim>\<open>d_colors_\<close> are again written without the
  trailing underscore.
\<close>

record cuda =
  cudaFree :: "nat \<Rightarrow> bool"
  cudaMalloc :: "nat \<Rightarrow> nat option"
  cudaMemcpy :: "nat \<Rightarrow> nat \<Rightarrow> bool"

datatype event = CudaFree nat | CudaMalloc nat | CudaMemcpy nat nat | Printf

record PointCloudCUDA = PointCloud +
  d_points :: "nat option"
  d_normals :: "nat option"
  d_colors :: "nat option"

text \<open>
  The outcome of a \<^verbatim>\<open>bool\<close> member function: the returned value, the updated handle or
  object, and the trace. The returned value is \<open>None\<close> when control reaches the closing
  brace of the function without a \<^verbatim>\<open>return\<close> statement: the behaviour is then
  undefined, and no value is returned.
\<close>

type_synonym 'a outcome = "bool option \<times> 'a \<times> event list"

text \<open>
  \<^verbatim>\<open>UpdateDeviceMemory(double **d_data, const vector<Eigen::Vector3d> &data)\<close>, here
  \<open>UpdateDeviceMemory_data\<close>: an existing buffer is freed first (\<^verbatim>\<open>return false\<close> when
  that fails); \<open>allocate_and_copy\<close> is the rest of the body, from \<^verbatim>\<open>cudaMalloc\<close> on.
  The size of an \<^verbatim>\<open>Eigen::Vector3d\<close> is 24 bytes. The function returns \<^verbatim>\<open>true\<close> inside
  the branch of a failed copy and has no \<^verbatim>\<open>return\<close> after a successful one.
\<close>

definition allocate_and_copy :: "cuda \<Rightarrow> Vector3d list \<Rightarrow> event list \<Rightarrow> (nat option) outcome" where
  "allocate_and_copy rt data trace =
     (let size = length data * 24 in
      case cudaMalloc rt size of
        None \<Rightarrow> (Some False, None, trace @ [CudaMalloc size])
      | Some p \<Rightarrow>
          if \<not> cudaMemcpy rt p size
          then (Some True, Some p, trace @ [CudaMalloc size, CudaMemcpy p size, Printf])
          else (None, Some p, trace @ [CudaMalloc size, CudaMemcpy p size]))"

definition UpdateDeviceMemory_data ::
  "cuda \<Rightarrow> nat option \<Rightarrow> Vector3d list \<Rightarrow> event list \<Rightarrow> (nat option) outcome" where
  "UpdateDeviceMemory_data rt d_data data trace =
     (case d_data of
        Some p \<Rightarrow>
          if \<not> cudaFree rt p then (Some False, Some p, trace @ [CudaFree p])
          else allocate_and_copy rt data (trace @ [CudaFree p])
      | None \<Rightarrow> allocate_and_copy rt data trace)"

definition UpdateDevicePoints :: "cuda \<Rightarrow> PointCloudCUDA \<Rightarrow> event list \<Rightarrow> PointCloudCUDA outcome" where
  "UpdateDevicePoints rt c trace =
     (case UpdateDeviceMemory_data rt (d_points c) (points c) trace of
        (r, d, trace') \<Rightarrow> (r, c\<lparr>d_points := d\<rparr>, trace'))"

definition UpdateDeviceNormals :: "cuda \<Rightarrow> PointCloudCUDA \<Rightarrow> event list \<Rightarrow> PointCloudCUDA outcome" where
  "UpdateDeviceNormals rt c trace =
     (case UpdateDeviceMemory_data rt (d_normals c) (normals c) trace of
        (r, d, trace') \<Rightarrow> (r, c\<lparr>d_normals := d\<rparr>, trace'))"

definition UpdateDeviceColors :: "cuda \<Rightarrow> PointCloudCUDA \<Rightarrow> event list \<Rightarrow> PointCloudCUDA outcome" where
  "UpdateDeviceColors rt c trace =
     (case UpdateDeviceMemory_data rt (d_colors c) (colors c) trace of
        (r, d, trace') \<Rightarrow> (r, c\<lparr>d_colors := d\<rparr>, trace'))"

text \<open>
  The operator \<^verbatim>\<open>&&\<close>: the right operand is evaluated only when the left one returned
  \<^verbatim>\<open>true\<close>.
\<close>

definition and_then ::
  "'a outcome \<Rightarrow> ('a \<Rightarrow> event list \<Rightarrow> 'a outcome) \<Rightarrow> 'a outcome" where
  "and_then left right =
     (case left of
        (Some True, c, trace) \<Rightarrow> right c trace
      | (Some False, c, trace) \<Rightarrow> (Some False, c, trace)
      | (None, c, trace) \<Rightarrow> (None, c, trace))"

definition UpdateDeviceMemory :: "cuda \<Rightarrow> PointCloudCUDA \<Rightarrow> event list \<Rightarrow> PointCloudCUDA outcome" where
  "UpdateDeviceMemory rt c trace =
     and_then (and_then (UpdateDevicePoints rt c trace) (UpdateDeviceNormals rt))
       (UpdateDeviceColors rt)"

text \<open>
  \<^verbatim>\<open>ReleaseDeviceMemory(double **d_data)\<close>, here \<open>ReleaseDeviceMemory_data\<close>: after a
  successful \<^verbatim>\<open>cudaFree\<close> the handle is set to null and the body ends without a
  \<^verbatim>\<open>return\<close>.
\<close>

definition ReleaseDeviceMemory_data :: "cuda \<Rightarrow> nat option \<Rightarrow> event list \<Rightarrow> (nat option) outcome" where
  "ReleaseDeviceMemory_data rt d_data trace =
     (case d_data of
        None \<Rightarrow> (Some True, None, trace)
      | Some p \<Rightarrow>
          if \<not> cudaFree rt p then (Some False, Some p, trace @ [CudaFree p])
          else (None, None, trace @ [CudaFree p]))"

definition ReleaseDevicePoints :: "cuda \<Rightarrow> PointCloudCUDA \<Rightarrow> event list \<Rightarrow> PointCloudCUDA outcome" where
  "ReleaseDevicePoints rt c trace =
     (case ReleaseDeviceMemory_data rt (d_points c) trace of
        (r, d, trace') \<Rightarrow> (r, c\<lparr>d_points := d\<rparr>, trace'))"

definition ReleaseDeviceNormals :: "cuda \<Rightarrow> PointCloudCUDA \<Rightarrow> event list \<Rightarrow> PointCloudCUDA outcome" where
  "ReleaseDeviceNormals rt c trace =
     (case ReleaseDeviceMemory_data rt (d_normals c) trace of
        (r, d, trace') \<Rightarrow> (r, c\<lparr>d_normals := d\<rparr>, trace'))"

definition ReleaseDeviceColors :: "cuda \<Rightarrow> PointCloudCUDA \<Rightarrow> event list \<Rightarrow> PointCloudCUDA outcome" where
  "ReleaseDeviceColors rt c trace =
     (case ReleaseDeviceMemory_data rt (d_colors c) trace of
        (r, d, trace') \<Rightarrow> (r, c\<lparr>d_colors := d\<rparr>, trace'))"

definition ReleaseDeviceMemory :: "cuda \<Rightarrow> PointCloudCUDA \<Rightarrow> event list \<Rightarrow> PointCloudCUDA outcome" where
  "ReleaseDeviceMemory rt c trace =
     and_then (and_then (ReleaseDevicePoints rt c trace) (ReleaseDeviceNormals rt))
       (ReleaseDeviceColors rt)"

text \<open>
  The refresh of all three mirrors in the words of the spec, for comparison: every
  refresh is attempted, and the result is the conjunction of the three outcomes.
\<close>

definition conj3 :: "bool option \<Rightarrow> bool option \<Rightarrow> bool option \<Rightarrow> bool option" where
  "conj3 a b c =
     (case (a, b, c) of (Some x, Some y, Some z) \<Rightarrow> Some (x \<and> y \<and> z) | _ \<Rightarrow> None)"

definition UpdateDeviceMemory_all :: "cuda \<Rightarrow> PointCloudCUDA \<Rightarrow> event list \<Rightarrow> PointCloudCUDA outcome" where
  "UpdateDeviceMemory_all rt c trace =
     (case UpdateDevicePoints rt c trace of (r1, c1, trace1) \<Rightarrow>
      case UpdateDeviceNormals rt c1 trace1 of (r2, c2, trace2) \<Rightarrow>
      case UpdateDeviceColors rt c2 trace2 of (r3, c3, trace3) \<Rightarrow>
        (conj3 r1 r2 r3, c3, trace3))"

text \<open>Runtimes and objects for concrete runs.\<close>

definition cuda_working :: cuda where
  "cuda_working = \<lparr>cudaFree = (\<lambda>p. True), cudaMalloc = (\<lambda>size. Some 1), cudaMemcpy = (\<lambda>p size. True)\<rparr>"

definition cuda_out_of_memory :: cuda where
  "cuda_out_of_memory = \<lparr>cudaFree = (\<lambda>p. True), cudaMalloc = (\<lambda>size. None), cudaMemcpy = (\<lambda>p size. True)\<rparr>"

definition cuda_copy_fails :: cuda where
  "cuda_copy_fails = \<lparr>cudaFree = (\<lambda>p. True), cudaMalloc = (\<lambda>size. if size = 0 then None else Some 1),
     cudaMemcpy = (\<lambda>p size. False)\<rparr>"

definition mirrored :: "Vector3d list \<Rightarrow> Vector3d list \<Rightarrow> Vector3d list \<Rightarrow>
    nat option \<Rightarrow> nat option \<Rightarrow> nat option \<Rightarrow> PointCloudCUDA" where
  "mirrored ps ns cs dp dn dc =
     \<lparr>points = ps, normals = ns, colors = cs, d_points = dp, d_normals = dn, d_colors = dc\<rparr>"


section \<open>Properties of concatenation\<close>

lemma set_get_member [simp]: "get_member m (set_member m v c) = v"
  by (cases m) simp_all

lemma set_set_member [simp]: "set_member m v (set_member m w c) = set_member m v c"
  by (cases m) simp_all

lemma set_member_same [simp]: "set_member m (get_member m c) c = c"
  by (cases m) simp_all

lemma copy_loop_inv:
  assumes "i \<le> add" 
    and "length (get_member m (s this)) = old + add"
    and "add \<le> length (get_member m (s cloud))"
    and "this = cloud \<longrightarrow> add \<le> old"
  shows "copy_loop m this cloud old add i s =
     Some (s(this := set_member m
        (take (old + i) (get_member m (s this)) @ drop i (take add (get_member m (s cloud))))
        (s this)))"
  using assms
proof (induction m this cloud old add i s rule: copy_loop.induct)
  case (1 m this cloud old add i s)
  let ?xs = "get_member m (s this)"
  let ?src = "get_member m (s cloud)"
  show ?case
  proof (cases "i < add")
    case False
    with "1.prems" have "i = add" by simp
    with "1.prems" show ?thesis
      by (subst copy_loop.simps) simp
  next
    case True
    let ?s' = "s(this := set_member m (?xs[old + i := ?src ! i]) (s this))"
    have rng: "i < length ?src" "old + i < length ?xs"
      using True "1.prems" by simp_all
    have src': "take add (get_member m (?s' cloud)) = take add ?src"
      using "1.prems"(4) by (cases "this = cloud") simp_all
    have IH: "copy_loop m this cloud old add (Suc i) ?s' =
      Some (?s'(this := set_member m
        (take (old + Suc i) (get_member m (?s' this)) @ drop (Suc i) (take add (get_member m (?s' cloud))))
        (?s' this)))"
      using True rng "1.prems" by (intro "1.IH") simp_all
    have tk: "take (old + Suc i) (?xs[old + i := ?src ! i]) = take (old + i) ?xs @ [?src ! i]"
      using rng by (simp add: take_Suc_conv_app_nth)
    have dr: "drop i (take add ?src) = ?src ! i # drop (Suc i) (take add ?src)"
      using True rng by (simp add: Cons_nth_drop_Suc [symmetric])
    have this': "get_member m (?s' this) = ?xs[old + i := ?src ! i]" by simp
    have fin: "?s'(this := set_member m
        (take (old + Suc i) (get_member m (?s' this)) @ drop (Suc i) (take add (get_member m (?s' cloud))))
        (?s' this)) = s(this := set_member m (take (old + i) ?xs @ drop i (take add ?src)) (s this))"
      unfolding this' src' tk dr by simp
    have "copy_loop m this cloud old add i s = copy_loop m this cloud old add (Suc i) ?s'"
      using True rng by (subst copy_loop.simps) simp
    then show ?thesis
      unfolding IH fin .
  qed
qed

lemma copy_after_resize:
  assumes pc: "length (points (s cloud)) = add" and pt: "length (points (s this)) = old"
    and pos: "0 < add"
    and src: "length (get_member m (s cloud)) = add"
    and dst: "length (get_member m (s this)) = old \<or> old = 0"
  shows "copy_loop m this cloud old add 0
           (s(this := set_member m (resize d (old + add) (get_member m (s this))) (s this))) =
         Some (s(this := set_member m
           ((if old = 0 then [] else get_member m (s this)) @ get_member m (s cloud)) (s this)))"
proof -
  let ?s0 = "s(this := set_member m (resize d (old + add) (get_member m (s this))) (s this))"
  have al: "this = cloud \<longrightarrow> add \<le> old" using pc pt by auto
  have len: "length (get_member m (?s0 this)) = old + add"
    by (simp add: resize_def)
  have srclen: "add \<le> length (get_member m (?s0 cloud))"
    using src by (auto simp: resize_def)
  have pre: "take old (get_member m (?s0 this)) = (if old = 0 then [] else get_member m (s this))"
    using dst by (auto simp: resize_def)
  have suf: "take add (get_member m (?s0 cloud)) = get_member m (s cloud)"
  proof (cases "this = cloud")
    case True
    with pc pt pos dst src show ?thesis by (auto simp: resize_def)
  next
    case False
    with src show ?thesis by simp
  qed
  have "copy_loop m this cloud old add 0 ?s0 =
      Some (?s0(this := set_member m
        (take (old + 0) (get_member m (?s0 this)) @ drop 0 (take add (get_member m (?s0 cloud))))
        (?s0 this)))"
    using len srclen al by (intro copy_loop_inv) simp_all
  also have "\<dots> = Some (s(this := set_member m
           ((if old = 0 then [] else get_member m (s this)) @ get_member m (s cloud)) (s this)))"
    using pre suf by simp
  finally show ?thesis .
qed

lemma plus_assign_result:
  assumes ne: "\<not> IsEmpty (s cloud)"
  shows "plus_assign d this cloud s =
    Some (s(this := \<lparr>points = points (s this) @ points (s cloud),
       normals = joined ((\<not> HasPoints (s this) \<or> HasNormals (s this)) \<and> HasNormals (s cloud))
                   (s this) (normals (s this)) (normals (s cloud)),
       colors = joined ((\<not> HasPoints (s this) \<or> HasColors (s this)) \<and> HasColors (s cloud))
                   (s this) (colors (s this)) (colors (s cloud))\<rparr>))"
proof -
  define old where "old = length (points (s this))"
  define add where "add = length (points (s cloud))"
  define cn where "cn \<longleftrightarrow> (\<not> HasPoints (s this) \<or> HasNormals (s this)) \<and> HasNormals (s cloud)"
  define cc where "cc \<longleftrightarrow> (\<not> HasPoints (s this) \<or> HasColors (s this)) \<and> HasColors (s cloud)"
  define N where "N = joined cn (s this) (normals (s this)) (normals (s cloud))"
  define C where "C = joined cc (s this) (colors (s this)) (colors (s cloud))"
  define s1 where "s1 = s(this := (s this)\<lparr>normals := N\<rparr>)"
  define s2 where "s2 = s1(this := (s1 this)\<lparr>colors := C\<rparr>)"
  have pos: "0 < add" using ne by (simp add: IsEmpty_def HasPoints_def add_def)
  have hp: "HasPoints (s this) \<longleftrightarrow> old \<noteq> 0"
    by (simp add: HasPoints_def old_def)
  have step1: "(if cn
                then copy_loop Normals this cloud old add 0
                       (s(this := (s this)\<lparr>normals := resize d (old + add) (normals (s this))\<rparr>))
                else Some (s(this := (s this)\<lparr>normals := []\<rparr>))) = Some s1"
  proof (cases cn)
    case False
    then show ?thesis by (simp add: s1_def N_def joined_def)
  next
    case True
    then have "length (get_member Normals (s cloud)) = add"
      and "length (get_member Normals (s this)) = old \<or> old = 0"
      by (auto simp: cn_def HasNormals_def HasPoints_def old_def add_def)
    from copy_after_resize [of s cloud add this old Normals d, OF _ _ pos this]
    have "copy_loop Normals this cloud old add 0
            (s(this := (s this)\<lparr>normals := resize d (old + add) (normals (s this))\<rparr>)) =
          Some (s(this := (s this)\<lparr>normals :=
            (if old = 0 then [] else normals (s this)) @ normals (s cloud)\<rparr>))"
      by (simp add: old_def add_def)
    with True show ?thesis
      by (simp add: s1_def N_def joined_def hp)
  qed
  have p1: "points (s1 this) = points (s this)" "points (s1 cloud) = points (s cloud)"
    "colors (s1 this) = colors (s this)" "colors (s1 cloud) = colors (s cloud)"
    by (simp_all add: s1_def)
  have c1: "((\<not> HasPoints (s1 this) \<or> HasColors (s1 this)) \<and> HasColors (s1 cloud)) = cc"
    by (simp add: HasPoints_def HasColors_def p1 cc_def)
  have step2: "(if cc
                then copy_loop Colors this cloud old add 0
                       (s1(this := (s1 this)\<lparr>colors := resize d (old + add) (colors (s1 this))\<rparr>))
                else Some (s1(this := (s1 this)\<lparr>colors := []\<rparr>))) = Some s2"
  proof (cases cc)
    case False
    then show ?thesis by (simp add: s2_def C_def joined_def)
  next
    case True
    then have "length (get_member Colors (s1 cloud)) = add"
      and "length (get_member Colors (s1 this)) = old \<or> old = 0"
      by (auto simp: cc_def HasColors_def HasPoints_def old_def add_def p1)
    from copy_after_resize [of s1 cloud add this old Colors d, OF _ _ pos this]
    have "copy_loop Colors this cloud old add 0
            (s1(this := (s1 this)\<lparr>colors := resize d (old + add) (colors (s1 this))\<rparr>)) =
          Some (s1(this := (s1 this)\<lparr>colors :=
            (if old = 0 then [] else colors (s this)) @ colors (s cloud)\<rparr>))"
      by (simp add: old_def add_def p1)
    with True show ?thesis
      by (simp add: s2_def C_def joined_def hp)
  qed
  have p2: "points (s2 this) = points (s this)" "points (s2 cloud) = points (s cloud)"
    by (simp_all add: s2_def p1)
  have step3: "copy_loop Points this cloud old add 0
            (s2(this := (s2 this)\<lparr>points := resize d (old + add) (points (s2 this))\<rparr>)) =
          Some (s2(this := (s2 this)\<lparr>points := points (s this) @ points (s cloud)\<rparr>))"
  proof -
    have "length (get_member Points (s2 cloud)) = add"
      and "length (get_member Points (s2 this)) = old \<or> old = 0"
      by (simp_all add: p2 old_def add_def)
    from copy_after_resize [of s2 cloud add this old Points d, OF _ _ pos this]
    have "copy_loop Points this cloud old add 0
            (s2(this := (s2 this)\<lparr>points := resize d (old + add) (points (s2 this))\<rparr>)) =
          Some (s2(this := (s2 this)\<lparr>points :=
            (if old = 0 then [] else points (s this)) @ points (s cloud)\<rparr>))"
      by (simp add: old_def add_def p2)
    moreover have "(if old = 0 then [] else points (s this)) = points (s this)"
      by (simp add: old_def)
    ultimately show ?thesis by simp
  qed
  have "plus_assign d this cloud s =
      Some (s2(this := (s2 this)\<lparr>points := points (s this) @ points (s cloud)\<rparr>))"
    unfolding plus_assign_def Let_def
    unfolding old_def [symmetric] add_def [symmetric] cn_def [symmetric]
    using ne by (simp only: if_False step1 option.case c1 step2 step3)
  also have "s2(this := (s2 this)\<lparr>points := points (s this) @ points (s cloud)\<rparr>) =
     s(this := \<lparr>points = points (s this) @ points (s cloud), normals = N, colors = C\<rparr>)"
    by (cases "s this") (simp add: s2_def s1_def)
  finally show ?thesis
    unfolding N_def C_def cn_def cc_def .
qed


subsection \<open>Appending an empty cloud\<close>

text \<open>
  Claim C10. For every point set \<open>A\<close> (at address \<open>this\<close>), appending a point set \<open>B\<close>
  (at address \<open>cloud\<close>) that has no points leaves the whole store, and so \<open>A\<close> with its
  points, normals and colors, exactly as it was: the early return of \<^verbatim>\<open>operator+=\<close>
  makes the empty point set a right identity, and \<open>A\<close> keeps its normals and colors
  although \<open>B\<close> has none.
\<close>

theorem plus_assign_empty_argument:
  "IsEmpty (s cloud) \<Longrightarrow> plus_assign d this cloud s = Some s"
  by (simp add: plus_assign_def)

theorem plus_assign_empty_argument_witness:
  "IsEmpty (store_of [\<lparr>points = [(1, 2, 3)], normals = [(0, 0, 1)], colors = [(1, 0, 0)]\<rparr>,
                      \<lparr>points = [], normals = [], colors = []\<rparr>] 1) \<and>
   cloud_at 0 (plus_assign (0, 0, 0) 0 1
      (store_of [\<lparr>points = [(1, 2, 3)], normals = [(0, 0, 1)], colors = [(1, 0, 0)]\<rparr>,
                 \<lparr>points = [], normals = [], colors = []\<rparr>])) =
   Some \<lparr>points = [(1, 2, 3)], normals = [(0, 0, 1)], colors = [(1, 0, 0)]\<rparr>"
proof -
  let ?s = "store_of [\<lparr>points = [(1, 2, 3)], normals = [(0, 0, 1)], colors = [(1, 0, 0)]\<rparr>,
                      \<lparr>points = [], normals = [], colors = []\<rparr>]"
  have e: "IsEmpty (?s 1)"
    by (simp add: store_of_def IsEmpty_def HasPoints_def)
  from plus_assign_empty_argument [where s = ?s and cloud = 1 and d = "(0, 0, 0)" and this = 0, OF e]
  show ?thesis using e by (simp add: cloud_at_def store_of_def)
qed

subsection \<open>Presence of normals and colors after an append\<close>

text \<open>
  The rule "the result has normals iff \<open>B\<close> has normals and (\<open>A\<close> had normals or \<open>A\<close>
  was empty)" does not hold for every \<open>B\<close>: when \<open>B\<close> has no points the early return
  keeps the normals and colors of \<open>A\<close>, although \<open>B\<close> has neither.
\<close>

theorem plus_assign_attribute_counterexample:
  "cloud_at 0 (plus_assign (0, 0, 0) 0 1
      (store_of [\<lparr>points = [(1, 2, 3)], normals = [(0, 0, 1)], colors = [(1, 0, 0)]\<rparr>,
                 \<lparr>points = [], normals = [], colors = []\<rparr>])) =
   Some \<lparr>points = [(1, 2, 3)], normals = [(0, 0, 1)], colors = [(1, 0, 0)]\<rparr> \<and>
   HasNormals \<lparr>points = [(1, 2, 3)], normals = [(0, 0, 1)], colors = [(1, 0, 0)]\<rparr> \<and>
   \<not> HasNormals \<lparr>points = [], normals = [], colors = []\<rparr> \<and>
   HasColors \<lparr>points = [(1, 2, 3)], normals = [(0, 0, 1)], colors = [(1, 0, 0)]\<rparr> \<and>
   \<not> HasColors \<lparr>points = [], normals = [], colors = []\<rparr>"
  by (simp add: plus_assign_def cloud_at_def store_of_def IsEmpty_def HasPoints_def
      HasNormals_def HasColors_def)

text \<open>
  Claim C2, amended. For every pair of point sets \<open>A\<close> and \<open>B\<close>, \<open>A += B\<close> has a result.
  When \<open>B\<close> has at least one point, the result carries normals if and only if \<open>B\<close> has
  normals and (\<open>A\<close> had normals before the append, or \<open>A\<close> was empty before the
  append); otherwise the normals sequence of the result is cleared, even if \<open>A\<close> alone
  had normals; the identical rule holds independently for colors. When \<open>B\<close> has no
  points, the result carries normals (colors) exactly when \<open>A\<close> did. \<open>A\<close> and \<open>B\<close> may be
  the same object.
\<close>

theorem plus_assign_attribute_presence:
  "\<exists>s'. plus_assign d this cloud s = Some s' \<and>
     (if IsEmpty (s cloud)
      then (HasNormals (s' this) \<longleftrightarrow> HasNormals (s this)) \<and>
           (HasColors (s' this) \<longleftrightarrow> HasColors (s this))
      else (HasNormals (s' this) \<longleftrightarrow>
              HasNormals (s cloud) \<and> (HasNormals (s this) \<or> IsEmpty (s this))) \<and>
           (\<not> HasNormals (s' this) \<longrightarrow> normals (s' this) = []) \<and>
           (HasColors (s' this) \<longleftrightarrow>
              HasColors (s cloud) \<and> (HasColors (s this) \<or> IsEmpty (s this))) \<and>
           (\<not> HasColors (s' this) \<longrightarrow> colors (s' this) = []))"
proof (cases "IsEmpty (s cloud)")
  case True
  then show ?thesis by (simp add: plus_assign_def)
next
  case False
  have pos: "0 < length (points (s cloud))"
    using False by (simp add: IsEmpty_def HasPoints_def)
  show ?thesis
    unfolding plus_assign_result [where s = s and cloud = cloud, OF False]
    using False pos
    by (auto simp: joined_def HasNormals_def HasColors_def HasPoints_def IsEmpty_def)
qed

theorem plus_assign_attribute_presence_witness:
  "\<not> IsEmpty (store_of [\<lparr>points = [(1, 2, 3)], normals = [(0, 0, 1)], colors = [(1, 0, 0)]\<rparr>,
                 \<lparr>points = [(4, 5, 6)], normals = [(0, 1, 0)], colors = []\<rparr>] 1) \<and>
   holds_at HasNormals 0 (plus_assign (0, 0, 0) 0 1
      (store_of [\<lparr>points = [(1, 2, 3)], normals = [(0, 0, 1)], colors = [(1, 0, 0)]\<rparr>,
                 \<lparr>points = [(4, 5, 6)], normals = [(0, 1, 0)], colors = []\<rparr>])) \<and>
   member_at Colors 0 (plus_assign (0, 0, 0) 0 1
      (store_of [\<lparr>points = [(1, 2, 3)], normals = [(0, 0, 1)], colors = [(1, 0, 0)]\<rparr>,
                 \<lparr>points = [(4, 5, 6)], normals = [(0, 1, 0)], colors = []\<rparr>])) = Some []"
proof -
  let ?s = "store_of [\<lparr>points = [(1, 2, 3)], normals = [(0, 0, 1)], colors = [(1, 0, 0)]\<rparr>,
                 \<lparr>points = [(4, 5, 6)], normals = [(0, 1, 0)], colors = []\<rparr>]"
  have ne: "\<not> IsEmpty (?s 1)"
    by (simp add: store_of_def IsEmpty_def HasPoints_def)
  have n: "HasNormals (?s 1) \<and> (HasNormals (?s 0) \<or> IsEmpty (?s 0))"
    by (simp add: store_of_def HasNormals_def)
  have c: "\<not> (HasColors (?s 1) \<and> (HasColors (?s 0) \<or> IsEmpty (?s 0)))"
    by (simp add: store_of_def HasColors_def)
  from plus_assign_attribute_presence [of "(0, 0, 0)" 0 1 ?s]
  obtain s' where r: "plus_assign (0, 0, 0) 0 1 ?s = Some s'"
    and p: "if IsEmpty (?s 1)
      then (HasNormals (s' 0) \<longleftrightarrow> HasNormals (?s 0)) \<and>
           (HasColors (s' 0) \<longleftrightarrow> HasColors (?s 0))
      else (HasNormals (s' 0) \<longleftrightarrow>
              HasNormals (?s 1) \<and> (HasNormals (?s 0) \<or> IsEmpty (?s 0))) \<and>
           (\<not> HasNormals (s' 0) \<longrightarrow> normals (s' 0) = []) \<and>
           (HasColors (s' 0) \<longleftrightarrow>
              HasColors (?s 1) \<and> (HasColors (?s 0) \<or> IsEmpty (?s 0))) \<and>
           (\<not> HasColors (s' 0) \<longrightarrow> colors (s' 0) = [])"
    by blast
  from p ne n c have "HasNormals (s' 0)" and "colors (s' 0) = []"
    by (simp_all only: if_False simp_thms)
  with r ne show ?thesis
    by (simp add: holds_at_def member_at_def)
qed

subsection \<open>Self-concatenation\<close>

text \<open>
  Claim C3. For every point set \<open>A\<close> with \<open>N\<close> points, \<open>A += A\<close> (the argument is the
  object itself: both addresses are \<open>this\<close>) has a result, so no element is read or
  written outside a vector; the result has \<open>2N\<close> points, its first \<open>N\<close> and its last \<open>N\<close>
  points are the original points of \<open>A\<close>; when \<open>A\<close> has normals (colors), the normals
  (colors) of the result are the original sequence twice; and no other object of the
  store changes.
\<close>

theorem plus_assign_self:
  "\<exists>s'. plus_assign d this this s = Some s' \<and>
     length (points (s' this)) = 2 * length (points (s this)) \<and>
     take (length (points (s this))) (points (s' this)) = points (s this) \<and>
     drop (length (points (s this))) (points (s' this)) = points (s this) \<and>
     (HasNormals (s this) \<longrightarrow> normals (s' this) = normals (s this) @ normals (s this)) \<and>
     (HasColors (s this) \<longrightarrow> colors (s' this) = colors (s this) @ colors (s this)) \<and>
     (\<forall>a. a \<noteq> this \<longrightarrow> s' a = s a)"
proof (cases "IsEmpty (s this)")
  case True
  then show ?thesis
    by (simp add: plus_assign_def IsEmpty_def HasPoints_def HasNormals_def HasColors_def)
next
  case False
  then have hp: "HasPoints (s this)" by (simp add: IsEmpty_def)
  show ?thesis
    unfolding plus_assign_result [where s = s and cloud = this, OF False]
    using hp by (simp add: joined_def)
qed

theorem plus_assign_self_witness:
  "HasNormals \<lparr>points = [(1, 2, 3), (4, 5, 6)], normals = [(0, 0, 1), (0, 1, 0)], colors = []\<rparr> \<and>
   member_at Points 0 (plus_assign (0, 0, 0) 0 0
      (store_of [\<lparr>points = [(1, 2, 3), (4, 5, 6)], normals = [(0, 0, 1), (0, 1, 0)], colors = []\<rparr>]))
     = Some [(1, 2, 3), (4, 5, 6), (1, 2, 3), (4, 5, 6)] \<and>
   member_at Normals 0 (plus_assign (0, 0, 0) 0 0
      (store_of [\<lparr>points = [(1, 2, 3), (4, 5, 6)], normals = [(0, 0, 1), (0, 1, 0)], colors = []\<rparr>]))
     = Some [(0, 0, 1), (0, 1, 0), (0, 0, 1), (0, 1, 0)]"
proof -
  let ?A = "\<lparr>points = [(1, 2, 3), (4, 5, 6)], normals = [(0, 0, 1), (0, 1, 0)], colors = []\<rparr>"
  let ?s = "store_of [?A]"
  have A: "?s 0 = ?A" by (simp add: store_of_def)
  have hn: "HasNormals ?A" by (simp add: HasNormals_def)
  from plus_assign_self [of "(0, 0, 0)" 0 ?s]
  obtain s' where r: "plus_assign (0, 0, 0) 0 0 ?s = Some s'"
    and t: "take (length (points (?s 0))) (points (s' 0)) = points (?s 0)"
    and d: "drop (length (points (?s 0))) (points (s' 0)) = points (?s 0)"
    and n: "HasNormals (?s 0) \<longrightarrow> normals (s' 0) = normals (?s 0) @ normals (?s 0)"
    by blast
  have "points (s' 0) = take (length (points (?s 0))) (points (s' 0)) @
      drop (length (points (?s 0))) (points (s' 0))"
    by simp
  also have "\<dots> = points (?s 0) @ points (?s 0)"
    by (simp only: t d)
  finally have "points (s' 0) = points ?A @ points ?A"
    by (simp only: A)
  moreover have "normals (s' 0) = normals ?A @ normals ?A"
    using n hn unfolding A by blast
  ultimately show ?thesis
    using r hn by (simp add: member_at_def)
qed


section \<open>Properties of the bounds\<close>

lemma min_element_from_fold:
  fixes f :: "'a \<Rightarrow> real"
  shows "f (min_element_from (\<lambda>a b. f a < f b) s xs) = fold min (map f xs) (f s)"
proof (induction xs arbitrary: s)
  case Nil
  show ?case by simp
next
  case (Cons x xs)
  have "f (if f x < f s then x else s) = min (f x) (f s)"
    by (simp add: min_def)
  with Cons.IH [of "if f x < f s then x else s"] show ?case
    by simp
qed

lemma max_element_from_fold:
  fixes f :: "'a \<Rightarrow> real"
  shows "f (max_element_from (\<lambda>a b. f a < f b) s xs) = fold max (map f xs) (f s)"
proof (induction xs arbitrary: s)
  case Nil
  show ?case by simp
next
  case (Cons x xs)
  have "f (if f s < f x then x else s) = max (f x) (f s)"
    by (simp add: max_def)
  with Cons.IH [of "if f s < f x then x else s"] show ?case
    by simp
qed

lemma min_element_axis:
  "ps \<noteq> [] \<Longrightarrow> \<exists>q. min_element (\<lambda>a b. coeff a i < coeff b i) ps = Some q \<and> coeff q i = axis_min i ps"
proof -
  assume "ps \<noteq> []"
  then obtain p ps' where ps: "ps = p # ps'" by (cases ps) auto
  have "coeff (min_element_from (\<lambda>a b. coeff a i < coeff b i) p ps') i =
      fold min (map (\<lambda>p. coeff p i) ps') (coeff p i)"
    by (rule min_element_from_fold [of "\<lambda>p. coeff p i"])
  also have "\<dots> = Min (set (coeff p i # map (\<lambda>p. coeff p i) ps'))"
    by (rule Min.set_eq_fold [symmetric])
  finally show ?thesis
    by (simp add: ps min_element_def axis_min_def)
qed

lemma max_element_axis:
  "ps \<noteq> [] \<Longrightarrow> \<exists>q. max_element (\<lambda>a b. coeff a i < coeff b i) ps = Some q \<and> coeff q i = axis_max i ps"
proof -
  assume "ps \<noteq> []"
  then obtain p ps' where ps: "ps = p # ps'" by (cases ps) auto
  have "coeff (max_element_from (\<lambda>a b. coeff a i < coeff b i) p ps') i =
      fold max (map (\<lambda>p. coeff p i) ps') (coeff p i)"
    by (rule max_element_from_fold [of "\<lambda>p. coeff p i"])
  also have "\<dots> = Max (set (coeff p i # map (\<lambda>p. coeff p i) ps'))"
    by (rule Max.set_eq_fold [symmetric])
  finally show ?thesis
    by (simp add: ps max_element_def axis_max_def)
qed

text \<open>
  Claim C8. On a point set without points \<^verbatim>\<open>GetMinBound\<close> and \<^verbatim>\<open>GetMaxBound\<close> return
  the zero vector. On a point set with points they return, independently for each of
  the three axes, the least (respectively the greatest) coordinate over all points on
  that axis. The corner need not be a point of the set: the second theorem has a set
  of four points whose upper corner \<open>(1, 1, 1)\<close> is none of them.
\<close>

theorem bounds_are_axis_extrema:
  "(\<not> HasPoints c \<longrightarrow> GetMinBound c = Some (0, 0, 0) \<and> GetMaxBound c = Some (0, 0, 0)) \<and>
   (HasPoints c \<longrightarrow>
      GetMinBound c = Some (axis_min 0 (points c), axis_min 1 (points c), axis_min 2 (points c)) \<and>
      GetMaxBound c = Some (axis_max 0 (points c), axis_max 1 (points c), axis_max 2 (points c)))"
proof (cases "HasPoints c")
  case False
  then show ?thesis by (simp add: GetMinBound_def GetMaxBound_def)
next
  case True
  then have ne: "points c \<noteq> []" by (simp add: HasPoints_def)
  from min_element_axis [OF ne, of 0] min_element_axis [OF ne, of 1] min_element_axis [OF ne, of 2]
  have mn: "GetMinBound c = Some (axis_min 0 (points c), axis_min 1 (points c), axis_min 2 (points c))"
    using True by (auto simp: GetMinBound_def)
  from max_element_axis [OF ne, of 0] max_element_axis [OF ne, of 1] max_element_axis [OF ne, of 2]
  have mx: "GetMaxBound c = Some (axis_max 0 (points c), axis_max 1 (points c), axis_max 2 (points c))"
    using True by (auto simp: GetMaxBound_def)
  from True mn mx show ?thesis by simp
qed

theorem bounds_are_axis_extrema_witness:
  "HasPoints \<lparr>points = [(0, 0, 0), (1, 0, 0), (0, 1, 0), (0, 0, 1)], normals = [], colors = []\<rparr> \<and>
   GetMinBound \<lparr>points = [(0, 0, 0), (1, 0, 0), (0, 1, 0), (0, 0, 1)], normals = [], colors = []\<rparr>
     = Some (0, 0, 0) \<and>
   GetMaxBound \<lparr>points = [(0, 0, 0), (1, 0, 0), (0, 1, 0), (0, 0, 1)], normals = [], colors = []\<rparr>
     = Some (1, 1, 1) \<and>
   (1, 1, 1) \<notin> set (points \<lparr>points = [(0, 0, 0), (1, 0, 0), (0, 1, 0), (0, 0, 1)], normals = [], colors = []\<rparr>) \<and>
   \<not> HasPoints \<lparr>points = [], normals = [], colors = []\<rparr> \<and>
   GetMinBound \<lparr>points = [], normals = [], colors = []\<rparr> = Some (0, 0, 0) \<and>
   GetMaxBound \<lparr>points = [], normals = [], colors = []\<rparr> = Some (0, 0, 0)"
proof -
  let ?c = "\<lparr>points = [(0, 0, 0), (1, 0, 0), (0, 1, 0), (0, 0, 1)], normals = [], colors = []\<rparr>"
  let ?e = "\<lparr>points = [], normals = [], colors = []\<rparr>"
  have h: "HasPoints ?c" and e: "\<not> HasPoints ?e"
    by (simp_all add: HasPoints_def)
  from bounds_are_axis_extrema [of ?c] h
  have "GetMinBound ?c = Some (axis_min 0 (points ?c), axis_min 1 (points ?c), axis_min 2 (points ?c))"
    and "GetMaxBound ?c = Some (axis_max 0 (points ?c), axis_max 1 (points ?c), axis_max 2 (points ?c))"
    by blast+
  moreover from bounds_are_axis_extrema [of ?e] e
  have "GetMinBound ?e = Some (0, 0, 0)" and "GetMaxBound ?e = Some (0, 0, 0)"
    by blast+
  ultimately show ?thesis
    using h e by (simp add: axis_min_def axis_max_def coeff_def)
qed


section \<open>Properties of \<^verbatim>\<open>Transform\<close>\<close>

lemma coeff_simps [simp]:
  "coeff (a, b, c) 0 = a" "coeff (a, b, c) 1 = b" "coeff (a, b, c) (Suc 0) = b" "coeff (a, b, c) 2 = c"
  by (simp_all add: coeff_def)

lemma point_image:
  "block3 (mat_vec4 M (coeff p 0, coeff p 1, coeff p 2, 1)) = affine_image M p"
  by (cases "(M, p)" rule: linear_image.cases) (simp add: affine_image_def)

lemma normal_image:
  "block3 (mat_vec4 M (coeff n 0, coeff n 1, coeff n 2, 0)) = linear_image M n"
  by (cases "(M, n)" rule: linear_image.cases) simp

text \<open>
  Claim C9. \<^verbatim>\<open>Transform(M)\<close> replaces every point \<open>p\<close> by the image of \<open>p\<close> under the
  linear part of \<open>M\<close> plus the translation of \<open>M\<close> (the product of \<open>M\<close> with \<open>p\<close> extended
  by the homogeneous coordinate 1), replaces every normal \<open>n\<close> by the image of \<open>n\<close> under
  the linear part alone (homogeneous coordinate 0: the translation does not enter), and
  leaves the colors unchanged. The second theorem is the translation by \<open>(1, 0, 0)\<close>:
  the point \<open>(0, 0, 0)\<close> moves to \<open>(1, 0, 0)\<close>, the normal \<open>(1, 0, 0)\<close> stays.
\<close>

theorem Transform_points_normals_colors:
  "points (Transform M c) = map (affine_image M) (points c) \<and>
   normals (Transform M c) = map (linear_image M) (normals c) \<and>
   colors (Transform M c) = colors c"
  by (simp add: Transform_def point_image normal_image del: One_nat_def)

theorem Transform_translation_example:
  "Transform ((1, 0, 0, 1), (0, 1, 0, 0), (0, 0, 1, 0), (0, 0, 0, 1))
     \<lparr>points = [(0, 0, 0)], normals = [(1, 0, 0)], colors = [(1, 1, 1)]\<rparr> =
   \<lparr>points = [(1, 0, 0)], normals = [(1, 0, 0)], colors = [(1, 1, 1)]\<rparr>"
proof -
  let ?M = "((1, 0, 0, 1), (0, 1, 0, 0), (0, 0, 1, 0), (0, 0, 0, 1)) :: Matrix4d"
  let ?c = "\<lparr>points = [(0, 0, 0)], normals = [(1, 0, 0)], colors = [(1, 1, 1)]\<rparr>"
  from Transform_points_normals_colors [of ?M ?c]
  have "points (Transform ?M ?c) = [(1, 0, 0)]" "normals (Transform ?M ?c) = [(1, 0, 0)]"
    "colors (Transform ?M ?c) = [(1, 1, 1)]"
    by (simp_all add: affine_image_def)
  then show ?thesis
    by (cases "Transform ?M ?c") simp
qed


section \<open>Properties of the mean and the covariance\<close>

lemma foldl_accumulate:
  "foldl accumulate (a0, a1, a2, a3, a4, a5, a6, a7, a8) ps =
     (a0 + sum_list (map (\<lambda>p. coeff p 0) ps),
      a1 + sum_list (map (\<lambda>p. coeff p 1) ps),
      a2 + sum_list (map (\<lambda>p. coeff p 2) ps),
      a3 + sum_list (map (\<lambda>p. coeff p 0 * coeff p 0) ps),
      a4 + sum_list (map (\<lambda>p. coeff p 0 * coeff p 1) ps),
      a5 + sum_list (map (\<lambda>p. coeff p 0 * coeff p 2) ps),
      a6 + sum_list (map (\<lambda>p. coeff p 1 * coeff p 1) ps),
      a7 + sum_list (map (\<lambda>p. coeff p 1 * coeff p 2) ps),
      a8 + sum_list (map (\<lambda>p. coeff p 2 * coeff p 2) ps))"
  by (induction ps arbitrary: a0 a1 a2 a3 a4 a5 a6 a7 a8) (simp_all add: add.assoc)

lemma averaged_cumulants:
  "divide_all (foldl accumulate (0, 0, 0, 0, 0, 0, 0, 0, 0) ps) (real (length ps)) =
     (average (\<lambda>p. coeff p 0) ps, average (\<lambda>p. coeff p 1) ps, average (\<lambda>p. coeff p 2) ps,
      average (\<lambda>p. coeff p 0 * coeff p 0) ps,
      average (\<lambda>p. coeff p 0 * coeff p 1) ps,
      average (\<lambda>p. coeff p 0 * coeff p 2) ps,
      average (\<lambda>p. coeff p 1 * coeff p 1) ps,
      average (\<lambda>p. coeff p 1 * coeff p 2) ps,
      average (\<lambda>p. coeff p 2 * coeff p 2) ps)"
  by (simp add: foldl_accumulate average_def)

lemma below_three: "i < 3 \<Longrightarrow> i = 0 \<or> i = 1 \<or> i = (2::nat)"
  by arith

lemma average_commute:
  "average (\<lambda>p. coeff p j * coeff p i) ps = average (\<lambda>p. coeff p i * coeff p j) ps"
  by (simp add: average_def mult.commute)

text \<open>
  Claim C1. On a point set with \<open>N > 0\<close> points \<^verbatim>\<open>ComputePointCloudMeanAndCovariance\<close>
  returns the mean whose coefficient \<open>i\<close> is the sum of the coordinates \<open>i\<close> divided by
  \<open>N\<close>, and a symmetric covariance matrix whose entry \<open>(i, j)\<close> is the averaged second
  moment \<open>E[x\<^sub>i x\<^sub>j]\<close> minus the product \<open>E[x\<^sub>i] E[x\<^sub>j]\<close> of the averaged first moments:
  each sum is divided by \<open>N\<close> before the product is formed. On a point set without
  points it returns the zero mean and the identity matrix.
\<close>

theorem mean_and_covariance:
  "(IsEmpty c \<longrightarrow>
      ComputePointCloudMeanAndCovariance c = ((0, 0, 0), ((1, 0, 0), (0, 1, 0), (0, 0, 1)))) \<and>
   (\<not> IsEmpty c \<longrightarrow>
      (case ComputePointCloudMeanAndCovariance c of (mean, covariance) \<Rightarrow>
        (\<forall>i<3. coeff mean i = average (\<lambda>p. coeff p i) (points c)) \<and>
        (\<forall>i<3. \<forall>j<3. entry covariance i j =
            average (\<lambda>p. coeff p i * coeff p j) (points c) -
            average (\<lambda>p. coeff p i) (points c) * average (\<lambda>p. coeff p j) (points c)) \<and>
        (\<forall>i<3. \<forall>j<3. entry covariance i j = entry covariance j i)))"
proof (cases "IsEmpty c")
  case True
  then show ?thesis by (simp add: ComputePointCloudMeanAndCovariance_def)
next
  case False
  let ?ps = "points c"
  have r: "ComputePointCloudMeanAndCovariance c =
    moments (average (\<lambda>p. coeff p 0) ?ps, average (\<lambda>p. coeff p 1) ?ps, average (\<lambda>p. coeff p 2) ?ps,
      average (\<lambda>p. coeff p 0 * coeff p 0) ?ps,
      average (\<lambda>p. coeff p 0 * coeff p 1) ?ps,
      average (\<lambda>p. coeff p 0 * coeff p 2) ?ps,
      average (\<lambda>p. coeff p 1 * coeff p 1) ?ps,
      average (\<lambda>p. coeff p 1 * coeff p 2) ?ps,
      average (\<lambda>p. coeff p 2 * coeff p 2) ?ps)"
    using False by (simp only: ComputePointCloudMeanAndCovariance_def if_False averaged_cumulants)
  have m: "\<forall>i<3. coeff (fst (ComputePointCloudMeanAndCovariance c)) i = average (\<lambda>p. coeff p i) ?ps"
    unfolding r by (auto dest!: below_three)
  have cv: "\<forall>i<3. \<forall>j<3. entry (snd (ComputePointCloudMeanAndCovariance c)) i j =
            average (\<lambda>p. coeff p i * coeff p j) ?ps -
            average (\<lambda>p. coeff p i) ?ps * average (\<lambda>p. coeff p j) ?ps"
    unfolding r
    by (auto dest!: below_three simp: entry_def average_commute [of 0 "Suc 0"]
        average_commute [of 0 2] average_commute [of "Suc 0" 2])
  have sy: "\<forall>i<3. \<forall>j<3. entry (snd (ComputePointCloudMeanAndCovariance c)) i j =
      entry (snd (ComputePointCloudMeanAndCovariance c)) j i"
    unfolding r by (auto dest!: below_three simp: entry_def)
  from False m cv sy show ?thesis
    by (simp add: case_prod_unfold)
qed

theorem mean_and_covariance_witness:
  "\<not> IsEmpty \<lparr>points = [(0, 0, 0), (1, 0, 0), (0, 1, 0), (0, 0, 1)], normals = [], colors = []\<rparr> \<and>
   coeff (fst (ComputePointCloudMeanAndCovariance
     \<lparr>points = [(0, 0, 0), (1, 0, 0), (0, 1, 0), (0, 0, 1)], normals = [], colors = []\<rparr>)) 0 = 1 / 4 \<and>
   coeff (fst (ComputePointCloudMeanAndCovariance
     \<lparr>points = [(0, 0, 0), (1, 0, 0), (0, 1, 0), (0, 0, 1)], normals = [], colors = []\<rparr>)) 1 = 1 / 4 \<and>
   coeff (fst (ComputePointCloudMeanAndCovariance
     \<lparr>points = [(0, 0, 0), (1, 0, 0), (0, 1, 0), (0, 0, 1)], normals = [], colors = []\<rparr>)) 2 = 1 / 4 \<and>
   entry (snd (ComputePointCloudMeanAndCovariance
     \<lparr>points = [(0, 0, 0), (1, 0, 0), (0, 1, 0), (0, 0, 1)], normals = [], colors = []\<rparr>)) 0 0 = 3 / 16 \<and>
   entry (snd (ComputePointCloudMeanAndCovariance
     \<lparr>points = [(0, 0, 0), (1, 0, 0), (0, 1, 0), (0, 0, 1)], normals = [], colors = []\<rparr>)) 1 1 = 3 / 16 \<and>
   entry (snd (ComputePointCloudMeanAndCovariance
     \<lparr>points = [(0, 0, 0), (1, 0, 0), (0, 1, 0), (0, 0, 1)], normals = [], colors = []\<rparr>)) 2 2 = 3 / 16 \<and>
   entry (snd (ComputePointCloudMeanAndCovariance
     \<lparr>points = [(0, 0, 0), (1, 0, 0), (0, 1, 0), (0, 0, 1)], normals = [], colors = []\<rparr>)) 0 1 = - 1 / 16 \<and>
   entry (snd (ComputePointCloudMeanAndCovariance
     \<lparr>points = [(0, 0, 0), (1, 0, 0), (0, 1, 0), (0, 0, 1)], normals = [], colors = []\<rparr>)) 2 1 = - 1 / 16 \<and>
   IsEmpty \<lparr>points = [], normals = [], colors = []\<rparr> \<and>
   ComputePointCloudMeanAndCovariance \<lparr>points = [], normals = [], colors = []\<rparr> =
     ((0, 0, 0), ((1, 0, 0), (0, 1, 0), (0, 0, 1)))"
proof -
  let ?c = "\<lparr>points = [(0, 0, 0), (1, 0, 0), (0, 1, 0), (0, 0, 1)], normals = [], colors = []\<rparr>"
  let ?e = "\<lparr>points = [], normals = [], colors = []\<rparr>"
  let ?r = "ComputePointCloudMeanAndCovariance ?c"
  have ne: "\<not> IsEmpty ?c" and e: "IsEmpty ?e"
    by (simp_all add: IsEmpty_def HasPoints_def)
  from mean_and_covariance [of ?c] ne
  have m: "\<And>i. i < 3 \<Longrightarrow> coeff (fst ?r) i = average (\<lambda>p. coeff p i) (points ?c)"
    and cv: "\<And>i j. i < 3 \<Longrightarrow> j < 3 \<Longrightarrow> entry (snd ?r) i j =
            average (\<lambda>p. coeff p i * coeff p j) (points ?c) -
            average (\<lambda>p. coeff p i) (points ?c) * average (\<lambda>p. coeff p j) (points ?c)"
    by (simp_all add: case_prod_unfold)
  from mean_and_covariance [of ?e] e
  have z: "ComputePointCloudMeanAndCovariance ?e = ((0, 0, 0), ((1, 0, 0), (0, 1, 0), (0, 0, 1)))"
    by blast
  have "coeff (fst ?r) 0 = 1 / 4" "coeff (fst ?r) 1 = 1 / 4" "coeff (fst ?r) 2 = 1 / 4"
    by (simp_all add: m average_def)
  moreover have "entry (snd ?r) 0 0 = 3 / 16" "entry (snd ?r) 1 1 = 3 / 16"
    "entry (snd ?r) 2 2 = 3 / 16" "entry (snd ?r) 0 1 = - 1 / 16" "entry (snd ?r) 2 1 = - 1 / 16"
    by (simp_all add: cv average_def)
  ultimately show ?thesis
    using ne e z by simp
qed


section \<open>Properties of the nearest-neighbour distances\<close>

lemma distance_loop_inv:
  assumes "\<forall>q\<in>set (drop i queries). readable wn j (S g q k)"
    and "length distances = length queries"
  shows "distance_loop S g queries k wn j msg i (distances, printed) =
     Some (take i distances @ map (\<lambda>q. slot_value wn j (S g q k)) (drop i queries),
           printed @ concat (map (\<lambda>q. slot_message wn msg (S g q k)) (drop i queries)))"
  using assms
proof (induction S g queries k wn j msg i "(distances, printed)" arbitrary: distances printed
    rule: distance_loop.induct)
  case (1 S g queries k wn j msg i distances printed)
  show ?case
  proof (cases "i < length queries")
    case False
    with "1.prems" show ?thesis
      by (subst distance_loop.simps) simp
  next
    case True
    obtain found indices dists where r: "S g (queries ! i) k = (found, indices, dists)"
      by (cases "S g (queries ! i) k") auto
    have dr: "drop i queries = queries ! i # drop (Suc i) queries"
      using True by (simp add: Cons_nth_drop_Suc)
    have rd: "readable wn j (S g (queries ! i) k)"
      and rest: "\<forall>q\<in>set (drop (Suc i) queries). readable wn j (S g q k)"
      using "1.prems"(1) unfolding dr by simp_all
    have tk: "\<And>v. take (Suc i) (distances[i := v]) = take i distances @ [v]"
      using True "1.prems"(2) by (simp add: take_Suc_conv_app_nth)
    show ?thesis
    proof (cases "wn found")
      case wn: True
      have "distance_loop S g queries k wn j msg i (distances, printed) =
          distance_loop S g queries k wn j msg (Suc i) (distances[i := 0], printed @ [msg])"
        using True r wn by (subst distance_loop.simps) simp
      also have "\<dots> = Some (take (Suc i) (distances[i := 0]) @
            map (\<lambda>q. slot_value wn j (S g q k)) (drop (Suc i) queries),
          (printed @ [msg]) @ concat (map (\<lambda>q. slot_message wn msg (S g q k)) (drop (Suc i) queries)))"
        using True r wn rest "1.prems"(2) by (intro "1.hyps"(1)) simp_all
      finally show ?thesis
        unfolding dr tk using r wn by (simp add: slot_value_def slot_message_def)
    next
      case nwn: False
      with rd r have jl: "j < length dists" by (simp add: readable_def)
      have "distance_loop S g queries k wn j msg i (distances, printed) =
          distance_loop S g queries k wn j msg (Suc i) (distances[i := sqrt (dists ! j)], printed)"
        using True r nwn jl by (subst distance_loop.simps) simp
      also have "\<dots> = Some (take (Suc i) (distances[i := sqrt (dists ! j)]) @
            map (\<lambda>q. slot_value wn j (S g q k)) (drop (Suc i) queries),
          printed @ concat (map (\<lambda>q. slot_message wn msg (S g q k)) (drop (Suc i) queries)))"
        using True r nwn jl rest "1.prems"(2) by (intro "1.hyps"(2)) simp_all
      finally show ?thesis
        unfolding dr tk using r nwn by (simp add: slot_value_def slot_message_def)
    qed
  qed
qed

lemma distance_loop_result:
  assumes "\<forall>q\<in>set queries. readable wn j (S g q k)"
  shows "distance_loop S g queries k wn j msg 0 (replicate (length queries) 0, []) =
     Some (map (\<lambda>q. slot_value wn j (S g q k)) queries,
           concat (map (\<lambda>q. slot_message wn msg (S g q k)) queries))"
  using distance_loop_inv [of 0 queries wn j S g k "replicate (length queries) 0" msg "[]"] assms
  by simp

text \<open>
  Claim C6. \<^verbatim>\<open>ComputePointCloudToPointCloudDistance\<close> searches the tree of the target
  cloud once for every point of the source cloud with \<open>k = 1\<close>, and has a result with
  one slot per source point: slot \<open>i\<close> is \<open>0.0\<close> when the search for point \<open>i\<close> returns 0,
  and the square root of the first returned squared distance otherwise. One diagnostic
  is printed for every point without neighbours, and the remaining points are still
  processed. The hypothesis is the part of the search's contract that the code relies
  on: a search that returns a count other than 0 leaves at least one distance.
\<close>

theorem point_cloud_distance:
  assumes "\<forall>q\<in>set (points source).
     case SearchKNN (points target) q 1 of (found, indices, dists) \<Rightarrow> found \<noteq> 0 \<longrightarrow> dists \<noteq> []"
  shows "\<exists>distances printed.
     ComputePointCloudToPointCloudDistance SearchKNN source target = Some (distances, printed) \<and>
     length distances = length (points source) \<and>
     (\<forall>i<length (points source). distances ! i =
        (case SearchKNN (points target) (points source ! i) 1 of (found, indices, dists) \<Rightarrow>
           if found = 0 then 0 else sqrt (dists ! 0))) \<and>
     printed = concat (map (\<lambda>q.
        case SearchKNN (points target) q 1 of (found, indices, dists) \<Rightarrow>
          if found = 0
          then [''[ComputePointCloudToPointCloudDistance] Found a point without neighbors.'']
          else []) (points source))"
proof -
  have "\<forall>q\<in>set (points source). readable (\<lambda>found. found = 0) 0 (SearchKNN (points target) q 1)"
    using assms by (auto simp: readable_def split: prod.splits)
  from distance_loop_result [where S = SearchKNN and g = "points target" and k = 1, OF this]
  show ?thesis
    unfolding ComputePointCloudToPointCloudDistance_def
    by (simp add: slot_value_def slot_message_def)
qed

lemma search_knn_coincident:
  "search_knn [p, p] p 2 = (2, [0, 1], [0, 0])"
proof -
  have "[0..<length [p, p]] = [0, Suc 0]"
    by (simp add: upt_rec)
  then show ?thesis
    by (simp add: search_knn_def squared_distance_def)
qed

text \<open>
  Claim C5. \<^verbatim>\<open>ComputePointCloudNearestNeighborDistance\<close> searches the tree of the input
  cloud itself once for every point with \<open>k = 2\<close>, and has a result with one slot per
  point: slot \<open>i\<close> is \<open>0.0\<close>, with one diagnostic printed, when the search returns fewer
  than 2 neighbours, and the square root of the second returned squared distance
  otherwise (hypothesis: a search that returns more than 1 leaves at least two
  distances). With the search of the spec, a cloud of two coincident points gets
  \<open>0.0\<close> in both slots.
\<close>

theorem nearest_neighbor_distance:
  assumes "\<forall>q\<in>set (points input).
     case SearchKNN (points input) q 2 of (found, indices, dists) \<Rightarrow> 1 < found \<longrightarrow> 1 < length dists"
  shows "(\<exists>distances printed.
     ComputePointCloudNearestNeighborDistance SearchKNN input = Some (distances, printed) \<and>
     length distances = length (points input) \<and>
     (\<forall>i<length (points input). distances ! i =
        (case SearchKNN (points input) (points input ! i) 2 of (found, indices, dists) \<Rightarrow>
           if found \<le> 1 then 0 else sqrt (dists ! 1))) \<and>
     printed = concat (map (\<lambda>q.
        case SearchKNN (points input) q 2 of (found, indices, dists) \<Rightarrow>
          if found \<le> 1
          then [''[ComputePointCloudNearestNeighborDistance] Found a point without neighbors.'']
          else []) (points input))) \<and>
   ComputePointCloudNearestNeighborDistance search_knn \<lparr>points = [p, p], normals = ns, colors = cs\<rparr> =
     Some ([0, 0], [])"
proof
  have "readable (\<lambda>found. found \<le> 1) 1 (SearchKNN (points input) q 2)"
    if "q \<in> set (points input)" for q
  proof -
    obtain found indices dists where r: "SearchKNN (points input) q 2 = (found, indices, dists)"
      by (cases "SearchKNN (points input) q 2") auto
    with assms that have "1 < found \<longrightarrow> 1 < length dists"
      by fastforce
    then show ?thesis
      unfolding r readable_def by auto
  qed
  then have "\<forall>q\<in>set (points input). readable (\<lambda>found. found \<le> 1) 1 (SearchKNN (points input) q 2)"
    by blast
  from distance_loop_result [where S = SearchKNN and g = "points input" and k = 2, OF this]
  show "\<exists>distances printed.
     ComputePointCloudNearestNeighborDistance SearchKNN input = Some (distances, printed) \<and>
     length distances = length (points input) \<and>
     (\<forall>i<length (points input). distances ! i =
        (case SearchKNN (points input) (points input ! i) 2 of (found, indices, dists) \<Rightarrow>
           if found \<le> 1 then 0 else sqrt (dists ! 1))) \<and>
     printed = concat (map (\<lambda>q.
        case SearchKNN (points input) q 2 of (found, indices, dists) \<Rightarrow>
          if found \<le> 1
          then [''[ComputePointCloudNearestNeighborDistance] Found a point without neighbors.'']
          else []) (points input))"
    unfolding ComputePointCloudNearestNeighborDistance_def
    by (simp add: slot_value_def slot_message_def del: One_nat_def)
next
  have "\<forall>q\<in>set [p, p]. readable (\<lambda>found. found \<le> 1) 1 (search_knn [p, p] q 2)"
    by (simp add: search_knn_coincident readable_def)
  from distance_loop_result [where S = search_knn and g = "[p, p]" and k = 2, OF this]
  show "ComputePointCloudNearestNeighborDistance search_knn
      \<lparr>points = [p, p], normals = ns, colors = cs\<rparr> = Some ([0, 0], [])"
    unfolding ComputePointCloudNearestNeighborDistance_def
    by (simp add: slot_value_def slot_message_def search_knn_coincident)
qed

lemma list_of_two: "length xs = 2 \<Longrightarrow> xs = [xs ! 0, xs ! 1]"
  by (cases xs; cases "tl xs") auto

lemma search_knn_examples:
  "search_knn [] q 1 = (0, [], [])"
  "search_knn [(0, 0, 0)] (1, 0, 0) 1 = (1, [0], [1])"
  "search_knn [(0, 0, 0)] (0, 0, 0) 1 = (1, [0], [0])"
  "search_knn [(0, 0, 0)] (0, 0, 0) 2 = (1, [0], [0])"
  "search_knn [(0, 0, 0), (1, 0, 0)] (0, 0, 0) 2 = (2, [0, 1], [0, 1])"
  "search_knn [(0, 0, 0), (1, 0, 0)] (1, 0, 0) 2 = (2, [1, 0], [0, 1])"
  by (simp_all add: search_knn_def squared_distance_def upt_rec)

theorem point_cloud_distance_witness:
  "ComputePointCloudToPointCloudDistance search_knn
     \<lparr>points = [(1, 0, 0), (0, 0, 0)], normals = [], colors = []\<rparr>
     \<lparr>points = [], normals = [], colors = []\<rparr> =
   Some ([0, 0], [''[ComputePointCloudToPointCloudDistance] Found a point without neighbors.'',
                  ''[ComputePointCloudToPointCloudDistance] Found a point without neighbors.'']) \<and>
   ComputePointCloudToPointCloudDistance search_knn
     \<lparr>points = [(1, 0, 0), (0, 0, 0)], normals = [], colors = []\<rparr>
     \<lparr>points = [(0, 0, 0)], normals = [], colors = []\<rparr> =
   Some ([1, 0], [])"
proof -
  let ?src = "\<lparr>points = [(1, 0, 0), (0, 0, 0)], normals = [], colors = []\<rparr>"
  let ?none = "\<lparr>points = [], normals = [], colors = []\<rparr>"
  let ?one = "\<lparr>points = [(0, 0, 0)], normals = [], colors = []\<rparr>"
  have "\<forall>q\<in>set (points ?src).
     case search_knn (points ?none) q 1 of (found, indices, dists) \<Rightarrow> found \<noteq> 0 \<longrightarrow> dists \<noteq> []"
    by (simp add: search_knn_examples)
  from point_cloud_distance [where SearchKNN = search_knn and source = ?src and target = ?none, OF this]
  obtain ds pr where a: "ComputePointCloudToPointCloudDistance search_knn ?src ?none = Some (ds, pr)"
    and "length ds = 2" "ds ! 0 = 0" "ds ! 1 = 0"
    and "pr = [''[ComputePointCloudToPointCloudDistance] Found a point without neighbors.'',
               ''[ComputePointCloudToPointCloudDistance] Found a point without neighbors.'']"
    by (auto simp: search_knn_examples)
  with list_of_two [of ds] have first: "ComputePointCloudToPointCloudDistance search_knn ?src ?none =
     Some ([0, 0], [''[ComputePointCloudToPointCloudDistance] Found a point without neighbors.'',
                    ''[ComputePointCloudToPointCloudDistance] Found a point without neighbors.''])"
    by simp
  have "\<forall>q\<in>set (points ?src).
     case search_knn (points ?one) q 1 of (found, indices, dists) \<Rightarrow> found \<noteq> 0 \<longrightarrow> dists \<noteq> []"
    by (simp add: search_knn_examples)
  from point_cloud_distance [where SearchKNN = search_knn and source = ?src and target = ?one, OF this]
  obtain ds' pr' where b: "ComputePointCloudToPointCloudDistance search_knn ?src ?one = Some (ds', pr')"
    and "length ds' = 2" "ds' ! 0 = 1" "ds' ! 1 = 0" "pr' = []"
    by (auto simp: search_knn_examples)
  with list_of_two [of ds'] have "ComputePointCloudToPointCloudDistance search_knn ?src ?one =
     Some ([1, 0], [])"
    by simp
  with first show ?thesis by simp
qed

theorem nearest_neighbor_distance_witness:
  "ComputePointCloudNearestNeighborDistance search_knn
     \<lparr>points = [(0, 0, 0), (1, 0, 0)], normals = [], colors = []\<rparr> = Some ([1, 1], []) \<and>
   ComputePointCloudNearestNeighborDistance search_knn
     \<lparr>points = [(5, 5, 5), (5, 5, 5)], normals = [], colors = []\<rparr> = Some ([0, 0], [])"
proof -
  let ?c = "\<lparr>points = [(0, 0, 0), (1, 0, 0)], normals = [], colors = []\<rparr>"
  have h: "\<forall>q\<in>set (points ?c).
     case search_knn (points ?c) q 2 of (found, indices, dists) \<Rightarrow> 1 < found \<longrightarrow> 1 < length dists"
    by (simp add: search_knn_examples)
  note t = nearest_neighbor_distance [where SearchKNN = search_knn and input = ?c
      and p = "(5, 5, 5)" and ns = "[]" and cs = "[]", OF h]
  from t obtain ds pr where "ComputePointCloudNearestNeighborDistance search_knn ?c = Some (ds, pr)"
    and "length ds = 2" "ds ! 0 = 1" "ds ! 1 = 1" "pr = []"
    by (auto simp: search_knn_examples)
  with list_of_two [of ds] have "ComputePointCloudNearestNeighborDistance search_knn ?c = Some ([1, 1], [])"
    by simp
  with t show ?thesis by blast
qed


section \<open>Properties of the device mirrors\<close>

text \<open>
  \<^verbatim>\<open>UpdateDeviceMemory()\<close> does not attempt every refresh: when the allocation for the
  points fails, the trace holds that one call only, and the mirrors of normals and
  colors are not refreshed, where the refresh of all three attempts three allocations.
\<close>

theorem UpdateDeviceMemory_skips_counterexample:
  "UpdateDeviceMemory cuda_out_of_memory
     (mirrored [(1, 2, 3)] [(0, 0, 1)] [(1, 0, 0)] None None None) [] =
     (Some False, mirrored [(1, 2, 3)] [(0, 0, 1)] [(1, 0, 0)] None None None, [CudaMalloc 24]) \<and>
   UpdateDeviceMemory_all cuda_out_of_memory
     (mirrored [(1, 2, 3)] [(0, 0, 1)] [(1, 0, 0)] None None None) [] =
     (Some False, mirrored [(1, 2, 3)] [(0, 0, 1)] [(1, 0, 0)] None None None,
      [CudaMalloc 24, CudaMalloc 24, CudaMalloc 24])"
  by (simp add: UpdateDeviceMemory_def UpdateDeviceMemory_all_def and_then_def conj3_def
      UpdateDevicePoints_def UpdateDeviceNormals_def UpdateDeviceColors_def
      UpdateDeviceMemory_data_def allocate_and_copy_def cuda_out_of_memory_def mirrored_def)

lemma UpdateDevicePoints_keeps:
  "UpdateDevicePoints rt c trace = (r, c', trace') \<Longrightarrow> d_normals c' = d_normals c \<and> d_colors c' = d_colors c"
  by (auto simp: UpdateDevicePoints_def split: prod.splits)

lemma UpdateDeviceNormals_keeps:
  "UpdateDeviceNormals rt c trace = (r, c', trace') \<Longrightarrow> d_points c' = d_points c \<and> d_colors c' = d_colors c"
  by (auto simp: UpdateDeviceNormals_def split: prod.splits)

text \<open>
  Claim C4, amended. \<^verbatim>\<open>UpdateDeviceMemory()\<close> refreshes the points, then the normals,
  then the colors, and stops at the first refresh that returns false: when the refresh
  of the points returns false, neither the normals nor the colors are refreshed (their
  handles stay as they were) and false is returned; when the refresh of the points
  returns true and that of the normals returns false, the colors are not refreshed and
  false is returned; when both return true the result is that of the refresh of the
  colors. It returns true exactly when all three refreshes ran and each returned true.
\<close>

theorem UpdateDeviceMemory_short_circuit:
  "(\<forall>c1 trace1. UpdateDevicePoints rt c trace = (Some False, c1, trace1) \<longrightarrow>
      UpdateDeviceMemory rt c trace = (Some False, c1, trace1) \<and>
      d_normals c1 = d_normals c \<and> d_colors c1 = d_colors c) \<and>
   (\<forall>c1 trace1 c2 trace2. UpdateDevicePoints rt c trace = (Some True, c1, trace1) \<and>
      UpdateDeviceNormals rt c1 trace1 = (Some False, c2, trace2) \<longrightarrow>
      UpdateDeviceMemory rt c trace = (Some False, c2, trace2) \<and> d_colors c2 = d_colors c) \<and>
   (\<forall>c1 trace1 c2 trace2. UpdateDevicePoints rt c trace = (Some True, c1, trace1) \<and>
      UpdateDeviceNormals rt c1 trace1 = (Some True, c2, trace2) \<longrightarrow>
      UpdateDeviceMemory rt c trace = UpdateDeviceColors rt c2 trace2) \<and>
   (fst (UpdateDeviceMemory rt c trace) = Some True \<longleftrightarrow>
      (\<exists>c1 trace1 c2 trace2. UpdateDevicePoints rt c trace = (Some True, c1, trace1) \<and>
         UpdateDeviceNormals rt c1 trace1 = (Some True, c2, trace2) \<and>
         fst (UpdateDeviceColors rt c2 trace2) = Some True))"
proof (intro conjI allI impI)
  fix c1 trace1
  assume p: "UpdateDevicePoints rt c trace = (Some False, c1, trace1)"
  then show "UpdateDeviceMemory rt c trace = (Some False, c1, trace1)"
    by (simp add: UpdateDeviceMemory_def and_then_def)
  from UpdateDevicePoints_keeps [OF p]
  show "d_normals c1 = d_normals c" and "d_colors c1 = d_colors c" by simp_all
next
  fix c1 trace1 c2 trace2
  assume a: "UpdateDevicePoints rt c trace = (Some True, c1, trace1) \<and>
      UpdateDeviceNormals rt c1 trace1 = (Some False, c2, trace2)"
  then show "UpdateDeviceMemory rt c trace = (Some False, c2, trace2)"
    by (simp add: UpdateDeviceMemory_def and_then_def)
  from a UpdateDevicePoints_keeps [of rt c trace "Some True" c1 trace1]
    UpdateDeviceNormals_keeps [of rt c1 trace1 "Some False" c2 trace2]
  show "d_colors c2 = d_colors c" by simp
next
  fix c1 trace1 c2 trace2
  assume "UpdateDevicePoints rt c trace = (Some True, c1, trace1) \<and>
      UpdateDeviceNormals rt c1 trace1 = (Some True, c2, trace2)"
  then show "UpdateDeviceMemory rt c trace = UpdateDeviceColors rt c2 trace2"
    by (simp add: UpdateDeviceMemory_def and_then_def)
next
  show "fst (UpdateDeviceMemory rt c trace) = Some True \<longleftrightarrow>
      (\<exists>c1 trace1 c2 trace2. UpdateDevicePoints rt c trace = (Some True, c1, trace1) \<and>
         UpdateDeviceNormals rt c1 trace1 = (Some True, c2, trace2) \<and>
         fst (UpdateDeviceColors rt c2 trace2) = Some True)"
    by (auto simp: UpdateDeviceMemory_def and_then_def split: prod.splits option.splits bool.splits)
qed

theorem UpdateDeviceMemory_short_circuit_witness:
  "UpdateDeviceMemory cuda_out_of_memory
     (mirrored [(1, 2, 3)] [(0, 0, 1)] [(1, 0, 0)] None (Some 7) (Some 8)) [] =
     (Some False, mirrored [(1, 2, 3)] [(0, 0, 1)] [(1, 0, 0)] None (Some 7) (Some 8),
      [CudaMalloc 24]) \<and>
   UpdateDeviceMemory cuda_copy_fails (mirrored [(1, 2, 3)] [] [] None None None) [] =
     (Some False, mirrored [(1, 2, 3)] [] [] (Some 1) None None,
      [CudaMalloc 24, CudaMemcpy 1 24, Printf, CudaMalloc 0]) \<and>
   fst (UpdateDeviceMemory cuda_copy_fails
     (mirrored [(1, 2, 3)] [(0, 0, 1)] [(1, 0, 0)] None None None) []) = Some True"
proof -
  let ?a = "mirrored [(1, 2, 3)] [(0, 0, 1)] [(1, 0, 0)] None (Some 7) (Some 8)"
  let ?b = "mirrored [(1, 2, 3)] [] [] None None None"
  let ?b1 = "mirrored [(1, 2, 3)] [] [] (Some 1) None None"
  let ?c = "mirrored [(1, 2, 3)] [(0, 0, 1)] [(1, 0, 0)] None None None"
  let ?c1 = "mirrored [(1, 2, 3)] [(0, 0, 1)] [(1, 0, 0)] (Some 1) None None"
  let ?c2 = "mirrored [(1, 2, 3)] [(0, 0, 1)] [(1, 0, 0)] (Some 1) (Some 1) None"
  note defs = UpdateDevicePoints_def UpdateDeviceNormals_def UpdateDeviceColors_def
    UpdateDeviceMemory_data_def allocate_and_copy_def cuda_out_of_memory_def
    cuda_copy_fails_def mirrored_def
  have a: "UpdateDevicePoints cuda_out_of_memory ?a [] = (Some False, ?a, [CudaMalloc 24])"
    by (simp add: defs)
  have b: "UpdateDevicePoints cuda_copy_fails ?b [] =
      (Some True, ?b1, [CudaMalloc 24, CudaMemcpy 1 24, Printf])"
    "UpdateDeviceNormals cuda_copy_fails ?b1 [CudaMalloc 24, CudaMemcpy 1 24, Printf] =
      (Some False, ?b1, [CudaMalloc 24, CudaMemcpy 1 24, Printf, CudaMalloc 0])"
    by (simp_all add: defs)
  have c: "UpdateDevicePoints cuda_copy_fails ?c [] =
      (Some True, ?c1, [CudaMalloc 24, CudaMemcpy 1 24, Printf])"
    "UpdateDeviceNormals cuda_copy_fails ?c1 [CudaMalloc 24, CudaMemcpy 1 24, Printf] =
      (Some True, ?c2, [CudaMalloc 24, CudaMemcpy 1 24, Printf, CudaMalloc 24, CudaMemcpy 1 24, Printf])"
    "fst (UpdateDeviceColors cuda_copy_fails ?c2
       [CudaMalloc 24, CudaMemcpy 1 24, Printf, CudaMalloc 24, CudaMemcpy 1 24, Printf]) = Some True"
    by (simp_all add: defs)
  from UpdateDeviceMemory_short_circuit [of cuda_out_of_memory ?a "[]"] a
  have 1: "UpdateDeviceMemory cuda_out_of_memory ?a [] = (Some False, ?a, [CudaMalloc 24])"
    by blast
  from UpdateDeviceMemory_short_circuit [of cuda_copy_fails ?b "[]"] b
  have 2: "UpdateDeviceMemory cuda_copy_fails ?b [] =
     (Some False, ?b1, [CudaMalloc 24, CudaMemcpy 1 24, Printf, CudaMalloc 0])"
    by blast
  from UpdateDeviceMemory_short_circuit [of cuda_copy_fails ?c "[]"] c
  have 3: "fst (UpdateDeviceMemory cuda_copy_fails ?c []) = Some True"
    by blast
  from 1 2 3 show ?thesis by simp
qed

lemma ReleaseDeviceMemory_data_absent:
  "ReleaseDeviceMemory_data rt None trace = (Some True, None, trace)"
  by (simp add: ReleaseDeviceMemory_data_def)

lemma ReleaseDeviceMemory_data_present:
  "ReleaseDeviceMemory_data rt (Some p) trace =
     (if cudaFree rt p then (None, None, trace @ [CudaFree p])
      else (Some False, Some p, trace @ [CudaFree p]))"
  by (simp add: ReleaseDeviceMemory_data_def)

text \<open>
  Claim C7 (releasing a mirror frees the buffer if present, sets the handle to null and
  succeeds; releasing twice in succession succeeds both times). The code at a mirror
  that holds a buffer, with a runtime whose \<^verbatim>\<open>cudaFree\<close> succeeds: the first release
  frees the buffer and sets the handle to null, but returns no value, since the body
  ends without \<^verbatim>\<open>return true\<close>; the second release, on the null handle, returns
  true and leaves the handle null.
\<close>

theorem ReleaseDevicePoints_twice:
  "ReleaseDevicePoints cuda_working
     (mirrored [(1, 2, 3)] [] [] (Some 1) None None) [] =
     (None, mirrored [(1, 2, 3)] [] [] None None None, [CudaFree 1]) \<and>
   ReleaseDevicePoints cuda_working
     (mirrored [(1, 2, 3)] [] [] None None None) [CudaFree 1] =
     (Some True, mirrored [(1, 2, 3)] [] [] None None None, [CudaFree 1])"
  by (simp add: ReleaseDevicePoints_def ReleaseDeviceMemory_data_def cuda_working_def mirrored_def)

end
